theory Spec2Isabelle
  imports Complex_Main
begin

section \<open>The data visualization module \<open>slm_lab/lib/viz.py\<close>\<close>

text \<open>
  A shallow embedding of \<^verbatim>\<open>viz.py\<close>. Python strings are \<open>string\<close>, Python integers are
  \<open>int\<close>, a raised exception is the \<open>Inl\<close> branch of a sum (or the \<open>Some\<close> of the first
  component where the function returns nothing), and the effects on the world outside the
  module (interactive display, image export, logging) are events appended to a trace.
\<close>

subsection \<open>Python values and exceptions\<close>

text \<open>
  The exceptions the module can meet. \<open>KeyboardInterrupt\<close> and \<open>SystemExit\<close> derive from
  \<open>BaseException\<close> only; every other one derives from \<open>Exception\<close>, which is what the
  clause \<^verbatim>\<open>except Exception as e\<close> of \<open>save_image\<close> catches.
\<close>

datatype py_exception =
    KeyError string
  | IndexError
  | AttributeError string
  | OtherException string
  | KeyboardInterrupt
  | SystemExit

fun isinstance_Exception :: "py_exception \<Rightarrow> bool" where
  "isinstance_Exception KeyboardInterrupt = False"
| "isinstance_Exception SystemExit = False"
| "isinstance_Exception _ = True"

text \<open>A column argument of \<open>create_label\<close>: one name, or a list of names.\<close>

datatype col = Str string | StrList "string list"

text \<open>Python's truth value of such an argument: the empty string and the empty list are false.\<close>

fun truthy :: "col \<Rightarrow> bool" where
  "truthy (Str s) = (s \<noteq> [])"
| "truthy (StrList l) = (l \<noteq> [])"

text \<open>\<^verbatim>\<open>v or d\<close> where \<open>v\<close> is \<open>None\<close> or a column argument.\<close>

definition or_col :: "col option \<Rightarrow> col \<Rightarrow> col" where
  "or_col v d = (case v of None \<Rightarrow> d | Some c \<Rightarrow> if truthy c then c else d)"

text \<open>\<^verbatim>\<open>v or d\<close> where \<open>v\<close> is \<open>None\<close> or a string.\<close>

definition or_str :: "string option \<Rightarrow> string \<Rightarrow> string" where
  "or_str v d = (case v of None \<Rightarrow> d | Some s \<Rightarrow> if s = [] then d else s)"

text \<open>\<^verbatim>\<open>sep.join(xs)\<close>\<close>

fun join :: "string \<Rightarrow> string list \<Rightarrow> string" where
  "join sep [] = []"
| "join sep [x] = x"
| "join sep (x # y # ys) = x @ sep @ join sep (y # ys)"

text \<open>\<^verbatim>\<open>str(i)\<close> for a Python integer: decimal digits, with a minus sign below zero.\<close>

definition digit_char :: "nat \<Rightarrow> char" where
  "digit_char d = ''0123456789'' ! d"

function str_nat :: "nat \<Rightarrow> string" where
  "str_nat n = (if n < 10 then [digit_char n] else str_nat (n div 10) @ [digit_char (n mod 10)])"
  by pat_completeness auto
termination
  by (relation "measure (\<lambda>n. n)") auto

definition str_int :: "int \<Rightarrow> string" where
  "str_int i = (if i < 0 then CHR ''-'' # str_nat (nat (- i)) else str_nat (nat i))"

text \<open>
  \<^verbatim>\<open>s.replace(old, new)\<close>: the occurrences of \<open>old\<close> are found from the left and do not
  overlap; for an empty \<open>old\<close>, Python puts \<open>new\<close> before every character and at the end.
\<close>

function replace_ne :: "string \<Rightarrow> string \<Rightarrow> string \<Rightarrow> string" where
  "replace_ne old new [] = []"
| "replace_ne old new (c # cs) =
     (if old \<noteq> [] \<and> take (length old) (c # cs) = old
      then new @ replace_ne old new (drop (length old) (c # cs))
      else c # replace_ne old new cs)"
  by pat_completeness auto
termination
  by (relation "measure (\<lambda>(old, new, s). length s)") (auto simp: neq_Nil_conv)

definition replace :: "string \<Rightarrow> string \<Rightarrow> string \<Rightarrow> string" where
  "replace s old new =
     (if old = [] then new @ concat (map (\<lambda>c. c # new) s) else replace_ne old new s)"

subsection \<open>\<open>create_label\<close>\<close>

text \<open>
  Modelled from the spec: \<open>util.cast_list\<close> belongs to \<^verbatim>\<open>slm_lab/lib/util.py\<close>, which is not
  among the sources; it casts a value to a list: a list is returned as it is, any other
  value becomes the one-element list holding it.
\<close>

fun cast_list :: "col \<Rightarrow> string list" where
  "cast_list (StrList l) = l"
| "cast_list (Str s) = [s]"

record label =
  y_title :: string
  x_title :: string
  title :: string
  y_col_list :: "string list"
  x_col_list :: "string list"
  legend_name_list :: "string list"

text \<open>
  \<^verbatim>\<open>def create_label(y_col, x_col, title=None, y_title=None, x_title=None, legend_name=None)\<close>.
  An omitted keyword argument is \<open>None\<close>. The titles are strings, so \<^verbatim>\<open>str(...)\<close> leaves them
  as they are.
\<close>

definition create_label ::
  "col \<Rightarrow> col \<Rightarrow> string option \<Rightarrow> string option \<Rightarrow> string option \<Rightarrow> col option \<Rightarrow> label" where
  "create_label y_col x_col title_arg y_title_arg x_title_arg legend_name_arg =
     (let legend_name = or_col legend_name_arg y_col;
          y_cols = cast_list y_col;
          x_cols = cast_list x_col;
          legend_names = cast_list legend_name;
          y_t = or_str y_title_arg (join '','' y_cols);
          x_t = or_str x_title_arg (join '','' x_cols);
          t = or_str title_arg (y_t @ '' vs '' @ x_t)
      in \<lparr> y_title = y_t, x_title = x_t, title = t,
           y_col_list = y_cols, x_col_list = x_cols, legend_name_list = legend_names \<rparr>)"

subsection \<open>\<open>get_palette\<close> and \<open>lower_opacity\<close>\<close>

text \<open>
  The colour library \<open>colorlover\<close> is not part of the repository. Its table
  \<^verbatim>\<open>cl.scales[k]['qual']['Set2']\<close> is the parameter \<open>scales\<close>, a dictionary from the key \<open>k\<close>
  to a list of colour strings, and \<^verbatim>\<open>cl.interp\<close> is the parameter \<open>interp\<close>.
  A key that the table does not have raises \<open>KeyError\<close>.
\<close>

definition get_palette ::
  "(string \<rightharpoonup> string list) \<Rightarrow> (string list \<Rightarrow> int \<Rightarrow> string list) \<Rightarrow> int
     \<Rightarrow> py_exception + string list" where
  "get_palette scales interp aeb_count =
     (if aeb_count \<le> 8
      then (case scales (str_int (max 3 aeb_count)) of
              None \<Rightarrow> Inl (KeyError (str_int (max 3 aeb_count)))
            | Some palette \<Rightarrow> Inr palette)
      else (case scales ''8'' of
              None \<Rightarrow> Inl (KeyError ''8'')
            | Some set2 \<Rightarrow> Inr (interp set2 aeb_count)))"

text \<open>
  \<^verbatim>\<open>rgb.replace('rgb(', 'rgba(').replace(')', f',{opacity})')\<close>. The argument \<open>opacity\<close> is
  the text that the format \<^verbatim>\<open>{opacity}\<close> gives for the number passed, \<^verbatim>\<open>0.2\<close> for 0.2.
\<close>

definition lower_opacity :: "string \<Rightarrow> string \<Rightarrow> string" where
  "lower_opacity rgb opacity =
     replace (replace rgb ''rgb('' ''rgba('') '')'' ('','' @ opacity @ '')'')"

subsection \<open>Numbers: \<open>float64\<close>\<close>

text \<open>
  The numbers of a pandas series are IEEE 754 binary64 values: a rational with a
  significand of 53 bits, an infinity, or not-a-number (the sign of zero is not kept).
  The sum of two finite values is the exact sum rounded to the nearest value, ties to the
  even significand, with the subnormal range below the exponent -1074 and overflow to an
  infinity from \<open>2 ^ 1024\<close> on.
\<close>

datatype float64 = Finite rat | PlusInf | MinusInf | NaN

text \<open>The number of binary digits of a natural number.\<close>

function bit_length :: "nat \<Rightarrow> nat" where
  "bit_length n = (if n = 0 then 0 else Suc (bit_length (n div 2)))"
  by pat_completeness auto
termination
  by (relation "measure (\<lambda>n. n)") auto

text \<open>For a positive \<open>q\<close>, the exponent \<open>k\<close> with \<open>2 ^ k \<le> q < 2 ^ (k + 1)\<close>.\<close>

definition ilog2 :: "rat \<Rightarrow> int" where
  "ilog2 q = (if 1 \<le> q then int (bit_length (nat \<lfloor>q\<rfloor>)) - 1
              else - int (bit_length (nat (\<lceil>1 / q\<rceil> - 1))))"

definition pow2 :: "int \<Rightarrow> rat" where
  "pow2 e = (if 0 \<le> e then 2 ^ nat e else 1 / 2 ^ nat (- e))"

definition round_half_even :: "rat \<Rightarrow> int" where
  "round_half_even q =
     (let f = \<lfloor>q\<rfloor>; d = q - of_int f
      in if d < 1 / 2 then f else if 1 / 2 < d then f + 1 else if even f then f else f + 1)"

definition round64 :: "rat \<Rightarrow> float64" where
  "round64 q =
     (if q = 0 then Finite 0
      else (let e = max (ilog2 \<bar>q\<bar> - 52) (- 1074);
                m = round_half_even (q / pow2 e)
            in if 971 < e \<or> (e = 971 \<and> 2 ^ 53 \<le> \<bar>m\<bar>)
               then (if 0 < q then PlusInf else MinusInf)
               else Finite (of_int m * pow2 e)))"

fun fadd :: "float64 \<Rightarrow> float64 \<Rightarrow> float64" where
  "fadd NaN _ = NaN"
| "fadd _ NaN = NaN"
| "fadd PlusInf MinusInf = NaN"
| "fadd MinusInf PlusInf = NaN"
| "fadd PlusInf _ = PlusInf"
| "fadd _ PlusInf = PlusInf"
| "fadd MinusInf _ = MinusInf"
| "fadd _ MinusInf = MinusInf"
| "fadd (Finite a) (Finite b) = round64 (a + b)"

fun fneg :: "float64 \<Rightarrow> float64" where
  "fneg (Finite a) = Finite (- a)"
| "fneg PlusInf = MinusInf"
| "fneg MinusInf = PlusInf"
| "fneg NaN = NaN"

text \<open>\<open>+\<close> and \<open>-\<close> on \<open>float64\<close> are the rounded operations.\<close>

instantiation float64 :: "{plus, minus}"
begin

definition plus_float64 :: "float64 \<Rightarrow> float64 \<Rightarrow> float64" where
  "plus_float64 a b = fadd a b"

definition minus_float64 :: "float64 \<Rightarrow> float64 \<Rightarrow> float64" where
  "minus_float64 a b = fadd a (fneg b)"

instance ..

end

subsection \<open>Series, traces and figures\<close>

text \<open>
  The values that the callers hand over: a pandas \<open>Series\<close> of numbers, a Python list of
  such series (one per session), or a plain Python list of numbers. The numbers are of a
  type \<open>'a\<close> with its own \<open>+\<close> and \<open>-\<close> (\<open>float64\<close> in the program); \<open>+\<close> and \<open>-\<close> on series
  work element by element.
\<close>

datatype 'a pyval = Series "'a list" | SeriesList "'a list list" | PyList "'a list"

text \<open>\<^verbatim>\<open>v.tolist()\<close>: a \<open>Series\<close> has the method, a Python list has no such attribute.\<close>

fun tolist :: "'a pyval \<Rightarrow> py_exception + 'a list" where
  "tolist (Series xs) = Inr xs"
| "tolist _ = Inl (AttributeError ''tolist'')"

text \<open>\<^verbatim>\<open>xs[0]\<close>\<close>

fun getitem0 :: "'b list \<Rightarrow> py_exception + 'b" where
  "getitem0 [] = Inl IndexError"
| "getitem0 (x # _) = Inr x"

text \<open>\<^verbatim>\<open>d[k]\<close> on a dictionary (or a data frame's column) with string keys.\<close>

definition getitem :: "(string \<rightharpoonup> 'b) \<Rightarrow> string \<Rightarrow> py_exception + 'b" where
  "getitem d k = (case d k of None \<Rightarrow> Inl (KeyError k) | Some v \<Rightarrow> Inr v)"

text \<open>Sequencing of computations that may raise.\<close>

definition bind_exc :: "py_exception + 'b \<Rightarrow> ('b \<Rightarrow> py_exception + 'c) \<Rightarrow> py_exception + 'c" where
  "bind_exc m f = (case m of Inl e \<Rightarrow> Inl e | Inr v \<Rightarrow> f v)"

text \<open>
  \<^verbatim>\<open>go.Scatter(...)\<close> with the keyword arguments that the module uses; an argument that a call
  leaves out is \<open>None\<close>.
\<close>

record 'a scatter =
  sc_x :: "'a list"
  sc_y :: "'a pyval"
  sc_mode :: "string option"
  sc_showlegend :: bool
  sc_line_color :: string
  sc_line_width :: "int option"
  sc_fill :: "string option"
  sc_fillcolor :: "string option"

record layout =
  lay_title :: string
  lay_legend_x :: rat
  lay_legend_y :: rat
  lay_legend_orientation :: string
  lay_yaxis_rangemode :: string
  lay_yaxis_title :: string
  lay_xaxis_type :: "string option"
  lay_xaxis_title :: string
  lay_width :: int
  lay_height :: int
  lay_margin_l :: int
  lay_margin_r :: int
  lay_margin_t :: int
  lay_margin_b :: int

record 'a figure =
  fig_data :: "'a scatter list"
  fig_layout :: layout

text \<open>
  \<^verbatim>\<open>def create_layout(title, y_title, x_title, x_type=None, width=500, height=600, layout_kwargs=None)\<close>.
  \<open>layout.update(None)\<close> changes nothing; an update that is given is applied.
\<close>

definition create_layout ::
  "string \<Rightarrow> string \<Rightarrow> string \<Rightarrow> string option \<Rightarrow> int \<Rightarrow> int \<Rightarrow> (layout \<Rightarrow> layout) option \<Rightarrow> layout" where
  "create_layout ttl y_t x_t x_type width height layout_kwargs =
     (let lay = \<lparr> lay_title = ttl,
                  lay_legend_x = 0, lay_legend_y = - (1 / 4), lay_legend_orientation = ''h'',
                  lay_yaxis_rangemode = ''tozero'', lay_yaxis_title = y_t,
                  lay_xaxis_type = x_type, lay_xaxis_title = x_t,
                  lay_width = width, lay_height = height,
                  lay_margin_l = 60, lay_margin_r = 60, lay_margin_t = 60, lay_margin_b = 60 \<rparr>
      in case layout_kwargs of None \<Rightarrow> lay | Some upd \<Rightarrow> upd lay)"

subsection \<open>The world outside the module\<close>

text \<open>
  What the module does to the outside is a trace of events: a figure shown in the notebook
  (\<open>py.iplot\<close>), a figure written as an offline page (\<open>py.plot\<close> with its \<open>auto_open\<close>), a
  call of \<open>pio.write_image\<close> with the figure, the path and its outcome (\<open>None\<close> when the
  image is written, the exception raised otherwise), a warning of the logger.
\<close>

datatype 'a event =
    IPlot "'a figure" "bool option"
  | Plot "'a figure" bool
  | WriteImage "'a figure" string "py_exception option"
  | Warning string

text \<open>
  The module's own state: the trace so far and the flag of the \<open>once\<close> wrapper around the
  warning (the "already warned" flag).
\<close>

record 'a state =
  trace :: "'a event list"
  called :: bool

definition init_state :: "'a state" where
  "init_state = \<lparr> trace = [], called = False \<rparr>"

text \<open>
  What the module reads from outside, as parameters: the process environment
  \<open>os.environ\<close>, \<open>util.is_jupyter()\<close>, \<open>util.smart_path\<close>, the outcome of \<open>pio.write_image\<close>
  (\<open>None\<close> when the image is written, the exception it raises otherwise; it may depend on
  everything that happened before), \<open>util.calc_srs_mean_std\<close>, and the two entries of the
  colour library.
\<close>

record 'a world =
  os_environ :: "string \<rightharpoonup> string"
  util_is_jupyter :: bool
  util_smart_path :: "string \<Rightarrow> string"
  pio_write_image :: "'a figure \<Rightarrow> string \<Rightarrow> 'a event list \<Rightarrow> py_exception option"
  util_calc_srs_mean_std :: "'a pyval \<Rightarrow> py_exception + 'a list \<times> 'a list"
  cl_scales :: "string \<rightharpoonup> string list"
  cl_interp :: "string list \<Rightarrow> int \<Rightarrow> string list"

subsection \<open>\<open>plot\<close>, \<open>plot_sr\<close> and \<open>plot_mean_sr\<close>\<close>

text \<open>
  \<^verbatim>\<open>def plot(*args, **kwargs)\<close>, for one figure and an optional \<open>auto_open\<close> keyword:
  outside a notebook \<open>auto_open\<close> defaults to \<open>False\<close>.
\<close>

definition plot :: "'a world \<Rightarrow> 'a figure \<Rightarrow> bool option \<Rightarrow> 'a state \<Rightarrow> 'a state" where
  "plot w fig auto_open st =
     (if util_is_jupyter w
      then st\<lparr>trace := trace st @ [IPlot fig auto_open]\<rparr>
      else st\<lparr>trace := trace st @ [Plot fig (case auto_open of None \<Rightarrow> False | Some b \<Rightarrow> b)]\<rparr>)"

text \<open>\<^verbatim>\<open>def plot_sr(sr, time_sr, title, y_title, x_title)\<close>: one trace, shown, then returned.\<close>

definition plot_sr ::
  "'a world \<Rightarrow> 'a pyval \<Rightarrow> 'a pyval \<Rightarrow> string \<Rightarrow> string \<Rightarrow> string \<Rightarrow> 'a state
     \<Rightarrow> (py_exception + 'a figure) \<times> 'a state" where
  "plot_sr w sr time_sr ttl y_t x_t st =
     (case tolist time_sr of
        Inl e \<Rightarrow> (Inl e, st)
      | Inr x \<Rightarrow>
          (case bind_exc (get_palette (cl_scales w) (cl_interp w) 1) getitem0 of
             Inl e \<Rightarrow> (Inl e, st)
           | Inr color \<Rightarrow>
               (let main_trace = \<lparr> sc_x = x, sc_y = sr, sc_mode = Some ''lines'',
                                   sc_showlegend = False, sc_line_color = color,
                                   sc_line_width = Some 1, sc_fill = None, sc_fillcolor = None \<rparr>;
                    fig = \<lparr> fig_data = [main_trace],
                            fig_layout = create_layout ttl y_t x_t None 500 600 None \<rparr>
                in (Inr fig, plot w fig None st))))"

text \<open>
  \<^verbatim>\<open>def plot_mean_sr(sr_list, time_sr, title, y_title, x_title)\<close>: the mean as the main trace
  and one envelope trace that runs along \<open>mean + std\<close> and back along \<open>mean - std\<close>. The
  figure is returned and not shown. The mean and the standard deviation come from one
  data frame, so they have the same index and the sum and difference pair them in order.
\<close>

definition plot_mean_sr ::
  "('a::{plus,minus}) world \<Rightarrow> 'a pyval \<Rightarrow> 'a pyval \<Rightarrow> string \<Rightarrow> string \<Rightarrow> string
     \<Rightarrow> py_exception + 'a figure" where
  "plot_mean_sr w sr_list time_sr ttl y_t x_t =
     bind_exc (util_calc_srs_mean_std w sr_list) (\<lambda>(mean_sr, std_sr).
       let max_sr = map2 (+) mean_sr std_sr;
           min_sr = map2 (-) mean_sr std_sr;
           max_y = max_sr;
           min_y = min_sr
       in bind_exc (tolist time_sr) (\<lambda>x.
            bind_exc (bind_exc (get_palette (cl_scales w) (cl_interp w) 1) getitem0) (\<lambda>color.
              let main_trace = \<lparr> sc_x = x, sc_y = Series mean_sr, sc_mode = Some ''lines'',
                                  sc_showlegend = False, sc_line_color = color,
                                  sc_line_width = Some 1, sc_fill = None, sc_fillcolor = None \<rparr>;
                  envelope_trace = \<lparr> sc_x = x @ rev x, sc_y = PyList (max_y @ rev min_y),
                                      sc_mode = None, sc_showlegend = False,
                                      sc_line_color = ''rgba(0, 0, 0, 0)'', sc_line_width = None,
                                      sc_fill = Some ''tozerox'',
                                      sc_fillcolor = Some (lower_opacity color ''0.2'') \<rparr>
              in Inr \<lparr> fig_data = [main_trace, envelope_trace],
                       fig_layout = create_layout ttl y_t x_t None 500 600 None \<rparr>)))"

subsection \<open>\<open>save_image\<close>\<close>

text \<open>
  Modelled from the spec: \<open>ps.once\<close> is a function of the library \<open>pydash\<close>, which is not among
  the sources; the function it wraps runs at the first call only, and the wrapper keeps the
  one-time "already warned" flag. The wrapped function logs the warning.
\<close>

definition orca_warn_once :: "py_exception \<Rightarrow> 'a state \<Rightarrow> 'a state" where
  "orca_warn_once e st =
     (if called st then st
      else st\<lparr>trace := trace st
                 @ [Warning ''Failed to generate graph. Run retro-analysis to generate graphs later.''],
              called := True\<rparr>)"

text \<open>
  \<^verbatim>\<open>def save_image(figure, filepath)\<close>. The first component of the result is the exception
  that leaves the function, \<open>None\<close> when it returns.
\<close>

definition save_image ::
  "'a world \<Rightarrow> 'a figure \<Rightarrow> string \<Rightarrow> 'a state \<Rightarrow> py_exception option \<times> 'a state" where
  "save_image w fig filepath st =
     (case os_environ w ''PY_ENV'' of
        None \<Rightarrow> (Some (KeyError ''PY_ENV''), st)
      | Some v \<Rightarrow>
          if v = ''test'' then (None, st)
          else (let fp = util_smart_path w filepath;
                    outcome = pio_write_image w fig fp (trace st);
                    st1 = st\<lparr>trace := trace st @ [WriteImage fig fp outcome]\<rparr>
                in (case outcome of
                      None \<Rightarrow> (None, st1)
                    | Some e \<Rightarrow>
                        (if isinstance_Exception e then (None, orca_warn_once e st1)
                         else (Some e, st1)))))"

subsection \<open>\<open>plot_session\<close> and \<open>plot_trial\<close>\<close>

text \<open>
  The spec of a session or trial, with the entries that the module reads, and the metrics
  with their entry \<open>local\<close>, a dictionary from a metric's name to its value.
\<close>

record meta_spec =
  meta_prepath :: string
  meta_trial :: int
  meta_session :: int
  meta_max_session :: int

record spec =
  spec_name :: string
  spec_meta :: meta_spec

record 'a metrics =
  metrics_local :: "string \<rightharpoonup> 'a pyval"

text \<open>
  The loop \<^verbatim>\<open>for name, time in name_time_pairs\<close> of \<open>plot_session\<close>, over what is left of the
  list; \<open>src\<close> is the dictionary that the series are read from (\<open>local_metrics\<close> in the first
  loop, \<open>session_df\<close> in the second). An exception ends the loop and leaves the function.
\<close>

fun plot_session_loop ::
  "'a world \<Rightarrow> (string \<rightharpoonup> 'a pyval) \<Rightarrow> string \<Rightarrow> string \<Rightarrow> string \<Rightarrow> (string \<times> string) list
     \<Rightarrow> 'a state \<Rightarrow> py_exception option \<times> 'a state" where
  "plot_session_loop w src ttl prepath df_mode [] st = (None, st)"
| "plot_session_loop w src ttl prepath df_mode ((name, time) # rest) st =
     (case getitem src name of
        Inl e \<Rightarrow> (Some e, st)
      | Inr sr \<Rightarrow>
          (case getitem src time of
             Inl e \<Rightarrow> (Some e, st)
           | Inr time_sr \<Rightarrow>
               (case plot_sr w sr time_sr ttl name time st of
                  (Inl e, st1) \<Rightarrow> (Some e, st1)
                | (Inr fig, st1) \<Rightarrow>
                    (case save_image w fig
                            (prepath @ ''_session_graph_'' @ df_mode @ ''_'' @ name @ ''_vs_''
                               @ time @ ''.png'') st1 of
                       (Some e, st2) \<Rightarrow> (Some e, st2)
                     | (None, st2) \<Rightarrow> plot_session_loop w src ttl prepath df_mode rest st2))))"

text \<open>\<^verbatim>\<open>def plot_session(session_spec, session_metrics, session_df, df_mode='eval')\<close>\<close>

definition plot_session ::
  "'a world \<Rightarrow> spec \<Rightarrow> 'a metrics \<Rightarrow> (string \<rightharpoonup> 'a pyval) \<Rightarrow> string \<Rightarrow> 'a state
     \<Rightarrow> py_exception option \<times> 'a state" where
  "plot_session w session_spec session_metrics session_df df_mode st =
     (let meta = spec_meta session_spec;
          prepath = meta_prepath meta;
          ttl = ''session graph: '' @ spec_name session_spec @ '' t'' @ str_int (meta_trial meta)
                  @ '' s'' @ str_int (meta_session meta);
          local_metrics = metrics_local session_metrics
      in case plot_session_loop w local_metrics ttl prepath df_mode
                [(''mean_returns'', ''frames''),
                 (''strengths'', ''frames''),
                 (''sample_efficiencies'', ''frames''),
                 (''training_efficiencies'', ''opt_steps''),
                 (''stabilities'', ''frames'')] st of
           (Some e, st1) \<Rightarrow> (Some e, st1)
         | (None, st1) \<Rightarrow>
             if df_mode = ''eval'' then (None, st1)
             else plot_session_loop w session_df ttl prepath df_mode
                    [(''loss'', ''total_t''),
                     (''explore_var'', ''total_t''),
                     (''entropy'', ''total_t'')] st1)"

text \<open>The loop of \<open>plot_trial\<close>, over what is left of \<open>name_time_pairs\<close>.\<close>

fun plot_trial_loop ::
  "('a::{plus,minus}) world \<Rightarrow> (string \<rightharpoonup> 'a pyval) \<Rightarrow> string \<Rightarrow> string \<Rightarrow> (string \<times> string) list
     \<Rightarrow> 'a state \<Rightarrow> py_exception option \<times> 'a state" where
  "plot_trial_loop w local_metrics ttl prepath [] st = (None, st)"
| "plot_trial_loop w local_metrics ttl prepath ((name, time) # rest) st =
     (case getitem local_metrics name of
        Inl e \<Rightarrow> (Some e, st)
      | Inr sr \<Rightarrow>
          (case getitem local_metrics time of
             Inl e \<Rightarrow> (Some e, st)
           | Inr time_sr \<Rightarrow>
               (case (if name = ''consistencies''
                      then plot_sr w sr time_sr ttl name time st
                      else (plot_mean_sr w sr time_sr ttl name time, st)) of
                  (Inl e, st1) \<Rightarrow> (Some e, st1)
                | (Inr fig, st1) \<Rightarrow>
                    (case save_image w fig
                            (prepath @ ''_trial_graph_'' @ name @ ''_vs_'' @ time @ ''.png'') st1 of
                       (Some e, st2) \<Rightarrow> (Some e, st2)
                     | (None, st2) \<Rightarrow> plot_trial_loop w local_metrics ttl prepath rest st2))))"

text \<open>\<^verbatim>\<open>def plot_trial(trial_spec, trial_metrics)\<close>\<close>

definition plot_trial ::
  "('a::{plus,minus}) world \<Rightarrow> spec \<Rightarrow> 'a metrics \<Rightarrow> 'a state \<Rightarrow> py_exception option \<times> 'a state" where
  "plot_trial w trial_spec trial_metrics st =
     (let meta = spec_meta trial_spec;
          prepath = meta_prepath meta;
          ttl = ''trial graph: '' @ spec_name trial_spec @ '' t'' @ str_int (meta_trial meta)
                  @ '' '' @ str_int (meta_max_session meta) @ '' sessions'';
          local_metrics = metrics_local trial_metrics
      in plot_trial_loop w local_metrics ttl prepath
           [(''mean_returns'', ''frames''),
            (''strengths'', ''frames''),
            (''sample_efficiencies'', ''frames''),
            (''training_efficiencies'', ''opt_steps''),
            (''stabilities'', ''frames''),
            (''consistencies'', ''frames'')] st)"

subsection \<open>Runs of the module and what is observed of them\<close>

text \<open>
  A call of one of the module's operations that have an effect, in the world it is made in
  (the environment may change between two calls).
\<close>

datatype 'a call =
    SaveImage "'a world" "'a figure" string
  | PlotSr "'a world" "'a pyval" "'a pyval" string string string
  | PlotSession "'a world" spec "'a metrics" "string \<rightharpoonup> 'a pyval" string
  | PlotTrial "'a world" spec "'a metrics"

fun do_call :: "('a::{plus,minus}) call \<Rightarrow> 'a state \<Rightarrow> 'a state" where
  "do_call (SaveImage w fig filepath) st = snd (save_image w fig filepath st)"
| "do_call (PlotSr w sr time_sr ttl y_t x_t) st = snd (plot_sr w sr time_sr ttl y_t x_t st)"
| "do_call (PlotSession w sp ms df df_mode) st = snd (plot_session w sp ms df df_mode st)"
| "do_call (PlotTrial w sp ms) st = snd (plot_trial w sp ms st)"

text \<open>
  The calls of one process, in order, from the state the module has when it is loaded. A
  call that raises leaves the state as it was at the raise, and the process may go on.
\<close>

fun run :: "('a::{plus,minus}) call list \<Rightarrow> 'a state \<Rightarrow> 'a state" where
  "run [] st = st"
| "run (c # cs) st = run cs (do_call c st)"

text \<open>
  The warnings of a trace, its calls of \<open>pio.write_image\<close>, and its failed exports: the
  exceptions deriving from \<open>Exception\<close> that calls of \<open>pio.write_image\<close> raised.
\<close>

fun warnings :: "'a event list \<Rightarrow> string list" where
  "warnings [] = []"
| "warnings (Warning m # es) = m # warnings es"
| "warnings (_ # es) = warnings es"

fun exports :: "'a event list \<Rightarrow> ('a figure \<times> string) list" where
  "exports [] = []"
| "exports (WriteImage fig fp outcome # es) = (fig, fp) # exports es"
| "exports (_ # es) = exports es"

fun failed_exports :: "'a event list \<Rightarrow> py_exception list" where
  "failed_exports [] = []"
| "failed_exports (WriteImage fig fp (Some e) # es) =
     (if isinstance_Exception e then e # failed_exports es else failed_exports es)"
| "failed_exports (_ # es) = failed_exports es"

subsection \<open>The colour table and a small world to run the model in\<close>

text \<open>
  What \<open>get_palette\<close> needs of the table of the colour library: under each of the keys
  \<^verbatim>\<open>'3'\<close> to \<^verbatim>\<open>'8'\<close>, the qualitative set \<open>Set2\<close> has that many colours.
\<close>

definition set2_sized :: "(string \<rightharpoonup> string list) \<Rightarrow> bool" where
  "set2_sized sc =
     list_all (\<lambda>(k, n). case sc k of None \<Rightarrow> False | Some p \<Rightarrow> length p = n)
       [(''3'', 3), (''4'', 4), (''5'', 5), (''6'', 6), (''7'', 7), (''8'', 8)]"

text \<open>The eight colours of ColorBrewer's \<open>Set2\<close>, and the table with its entries for 3 to 8.\<close>

definition set2 :: "string list" where
  "set2 = [''rgb(102,194,165)'', ''rgb(252,141,98)'', ''rgb(141,160,203)'', ''rgb(231,138,195)'',
           ''rgb(166,216,84)'', ''rgb(255,217,47)'', ''rgb(229,196,148)'', ''rgb(179,179,179)'']"

definition set2_scales :: "string \<rightharpoonup> string list" where
  "set2_scales =
     map_of [(''3'', take 3 set2), (''4'', take 4 set2), (''5'', take 5 set2),
             (''6'', take 6 set2), (''7'', take 7 set2), (''8'', set2)]"

text \<open>
  A stand-in for \<open>cl.interp\<close> that gives \<open>r\<close> colours: for each of \<open>r\<close> evenly spaced
  positions along the scale, the colour at which the section it falls in starts (the
  library blends that colour with the next one).
\<close>

definition sample_interp :: "string list \<Rightarrow> int \<Rightarrow> string list" where
  "sample_interp scl r = map (\<lambda>i. scl ! (i * (length scl - 1) div nat r)) [0..<nat r]"

text \<open>
  The binary64 values that Python prints as \<^verbatim>\<open>0.1\<close>, \<^verbatim>\<open>0.5\<close>, \<^verbatim>\<open>0.3\<close> and
  \<^verbatim>\<open>0.282842712474619\<close>.
\<close>

definition f64_0_1 :: float64 where
  "f64_0_1 = Finite (3602879701896397 / 36028797018963968)"

definition f64_0_5 :: float64 where
  "f64_0_5 = Finite (1 / 2)"

definition f64_0_3 :: float64 where
  "f64_0_3 = Finite (5404319552844595 / 18014398509481984)"

definition f64_0_2828 :: float64 where
  "f64_0_2828 = Finite (2547620669010309 / 9007199254740992)"

text \<open>
  A stand-in for \<open>util.calc_srs_mean_std\<close> that knows one input: two sessions with the
  values 0.1 and 0.5 at their one time step have the mean 0.3 and the standard deviation
  0.282842712474619.
\<close>

definition demo_calc :: "float64 pyval \<Rightarrow> py_exception + float64 list \<times> float64 list" where
  "demo_calc v =
     (if v = SeriesList [[f64_0_1], [f64_0_5]] then Inr ([f64_0_3], [f64_0_2828])
      else Inl (OtherException ''calc_srs_mean_std''))"

text \<open>
  A world with a given value of \<open>PY_ENV\<close> (or none) and a given outcome of the exports,
  outside a notebook, with paths resolved under \<^verbatim>\<open>/lab/\<close>.
\<close>

definition demo_world ::
  "string option \<Rightarrow> (float64 event list \<Rightarrow> py_exception option) \<Rightarrow> float64 world" where
  "demo_world py_env outcome =
     \<lparr> os_environ = (\<lambda>k. if k = ''PY_ENV'' then py_env else None),
       util_is_jupyter = False,
       util_smart_path = (\<lambda>p. ''/lab/'' @ p),
       pio_write_image = (\<lambda>fig fp tr. outcome tr),
       util_calc_srs_mean_std = demo_calc,
       cl_scales = set2_scales,
       cl_interp = sample_interp \<rparr>"

text \<open>
  Two such worlds outside the test environment: one where every export succeeds, and one
  where the export is interrupted from the keyboard.
\<close>

definition quiet_world :: "float64 world" where
  "quiet_world = demo_world (Some ''dev'') (\<lambda>tr. None)"

definition interrupted_world :: "float64 world" where
  "interrupted_world = demo_world (Some ''dev'') (\<lambda>tr. Some KeyboardInterrupt)"

text \<open>A figure with no trace, to export.\<close>

definition empty_figure :: "float64 figure" where
  "empty_figure = \<lparr> fig_data = [], fig_layout = create_layout ''t'' ''y'' ''x'' None 500 600 None \<rparr>"

text \<open>A spec, the metrics of a trial and of a session, and a data frame of a session.\<close>

definition demo_spec :: spec where
  "demo_spec = \<lparr> spec_name = ''dqn_cartpole'',
                 spec_meta = \<lparr> meta_prepath = ''data/dqn'', meta_trial = 0, meta_session = 1,
                               meta_max_session = 3 \<rparr> \<rparr>"

definition demo_trial_metrics :: "float64 metrics" where
  "demo_trial_metrics =
     \<lparr> metrics_local = map_of
         [(''mean_returns'', SeriesList [[f64_0_1], [f64_0_5]]),
          (''strengths'', SeriesList [[f64_0_1], [f64_0_5]]),
          (''sample_efficiencies'', SeriesList [[f64_0_1], [f64_0_5]]),
          (''training_efficiencies'', SeriesList [[f64_0_1], [f64_0_5]]),
          (''stabilities'', SeriesList [[f64_0_1], [f64_0_5]]),
          (''consistencies'', Series [f64_0_5]),
          (''frames'', Series [Finite 100]),
          (''opt_steps'', Series [Finite 10])] \<rparr>"

definition demo_session_metrics :: "float64 metrics" where
  "demo_session_metrics =
     \<lparr> metrics_local = map_of
         [(''mean_returns'', Series [Finite 1, Finite 4]),
          (''strengths'', Series [Finite 2, Finite 5]),
          (''sample_efficiencies'', Series [Finite 3, Finite 6]),
          (''training_efficiencies'', Series [Finite 4, Finite 7]),
          (''stabilities'', Series [Finite 5, Finite 8]),
          (''frames'', Series [Finite 100, Finite 200]),
          (''opt_steps'', Series [Finite 10, Finite 20])] \<rparr>"

definition demo_session_df :: "string \<rightharpoonup> float64 pyval" where
  "demo_session_df = map_of
     [(''loss'', Series [Finite 9, Finite 8, Finite 7]),
      (''explore_var'', Series [Finite 3, Finite 2, Finite 1]),
      (''entropy'', Series [Finite 6, Finite 5, Finite 4]),
      (''total_t'', Series [Finite 1, Finite 2, Finite 3])]"

subsection \<open>What the properties speak of\<close>

text \<open>
  The log holds the one warning exactly when an export has failed, and the flag of the
  \<open>once\<close> wrapper is set exactly then.
\<close>

definition warn_log_inv :: "'a state \<Rightarrow> bool" where
  "warn_log_inv st =
     (warnings (trace st)
        = (if failed_exports (trace st) = [] then []
           else [''Failed to generate graph. Run retro-analysis to generate graphs later.''])
      \<and> called st = (failed_exports (trace st) \<noteq> []))"

text \<open>
  An export \<open>(fig, fp)\<close> is the single-series chart of the pair \<open>(name, time)\<close>: the path is
  the resolved \<open>prefix\<close>\<^verbatim>\<open>{name}_vs_{time}.png\<close>, and the figure has the given title and one
  trace, with the series \<open>src[name]\<close> over the list of \<open>src[time]\<close>, and no fill.
\<close>

definition single_series_export ::
  "'a world \<Rightarrow> (string \<rightharpoonup> 'a pyval) \<Rightarrow> string \<Rightarrow> string \<Rightarrow> string \<times> string
     \<Rightarrow> 'a figure \<times> string \<Rightarrow> bool" where
  "single_series_export w src ttl prefix pair ex =
     (case (pair, ex) of ((name, time), (fig, fp)) \<Rightarrow>
        fp = util_smart_path w (prefix @ name @ ''_vs_'' @ time @ ''.png'')
      \<and> lay_title (fig_layout fig) = ttl
      \<and> (case fig_data fig of
            [tr] \<Rightarrow> src name = Some (sc_y tr) \<and> src time = Some (Series (sc_x tr))
                    \<and> sc_fill tr = None \<and> sc_fillcolor tr = None
          | _ \<Rightarrow> False))"

text \<open>
  An export \<open>(fig, fp)\<close> is the chart with the error band of the pair \<open>(name, time)\<close>: the
  path is as above, and the figure has the given title and two traces. With \<open>mean\<close> and
  \<open>std\<close> the mean and the standard deviation of the series in \<open>src[name]\<close> and \<open>x\<close> the list
  of \<open>src[time]\<close>, the first trace is the unfilled line of \<open>mean\<close> over \<open>x\<close>, and the second
  one is filled and runs along \<open>mean + std\<close> over \<open>x\<close> and back along \<open>mean - std\<close>.
\<close>

definition error_band_export ::
  "('a::{plus,minus}) world \<Rightarrow> (string \<rightharpoonup> 'a pyval) \<Rightarrow> string \<Rightarrow> string \<Rightarrow> string \<times> string
     \<Rightarrow> 'a figure \<times> string \<Rightarrow> bool" where
  "error_band_export w src ttl prefix pair ex =
     (case (pair, ex) of ((name, time), (fig, fp)) \<Rightarrow>
        fp = util_smart_path w (prefix @ name @ ''_vs_'' @ time @ ''.png'')
      \<and> lay_title (fig_layout fig) = ttl
      \<and> (case (src name, src time) of
            (Some sr, Some (Series x)) \<Rightarrow>
              (case util_calc_srs_mean_std w sr of
                 Inr (mean_sr, std_sr) \<Rightarrow>
                   (case fig_data fig of
                      [main_trace, envelope_trace] \<Rightarrow>
                          sc_x main_trace = x \<and> sc_y main_trace = Series mean_sr
                        \<and> sc_mode main_trace = Some ''lines'' \<and> sc_fill main_trace = None
                        \<and> sc_x envelope_trace = x @ rev x
                        \<and> sc_y envelope_trace
                            = PyList (map2 (+) mean_sr std_sr @ rev (map2 (-) mean_sr std_sr))
                        \<and> sc_fill envelope_trace = Some ''tozerox''
                    | _ \<Rightarrow> False)
               | Inl e \<Rightarrow> False)
          | _ \<Rightarrow> False))"

section \<open>Properties\<close>

subsection \<open>Helper facts\<close>

lemma str_int_digits:
  "str_int 3 = ''3''" "str_int 4 = ''4''" "str_int 5 = ''5''"
  "str_int 6 = ''6''" "str_int 7 = ''7''" "str_int 8 = ''8''"
  by (simp_all add: str_int_def digit_char_def)

lemma max3_cases:
  fixes n :: int
  assumes "n \<le> 8"
  shows "max 3 n = 3 \<or> max 3 n = 4 \<or> max 3 n = 5 \<or> max 3 n = 6 \<or> max 3 n = 7 \<or> max 3 n = 8"
  using assms by (auto simp: max_def)

lemma set2_scales_sized: "set2_sized set2_scales"
  by (simp add: set2_sized_def set2_scales_def set2_def)

lemma sample_interp_length: "0 \<le> r \<Longrightarrow> int (length (sample_interp scl r)) = r"
  by (simp add: sample_interp_def)

lemma first_color:
  "cl_scales w ''3'' = Some (color # rest) \<Longrightarrow>
   bind_exc (get_palette (cl_scales w) (cl_interp w) 1) getitem0 = Inr color"
  by (simp add: get_palette_def bind_exc_def str_int_digits)

lemma demo_first: "cl_scales (demo_world e outcome) ''3'' = Some (''rgb(102,194,165)'' # [''rgb(252,141,98)'', ''rgb(141,160,203)''])"
  by (simp add: demo_world_def set2_scales_def set2_def)

lemma bind_exc_Inr: "bind_exc (Inr v) f = f v"
  by (simp add: bind_exc_def)

lemma replace_ne_absent:
  "old \<noteq> [] \<Longrightarrow> hd old \<notin> set s \<Longrightarrow> replace_ne old new s = s"
proof (induction s)
  case Nil
  then show ?case by simp
next
  case (Cons c cs)
  from Cons.prems have "take (length old) (c # cs) \<noteq> old"
    by (cases old) auto
  with Cons show ?case by simp
qed

lemma replace_ne_char:
  "replace_ne [c] new s = concat (map (\<lambda>x. if x = c then new else [x]) s)"
  by (induction s) simp_all

lemma concat_map_absent:
  "c \<notin> set s \<Longrightarrow> concat (map (\<lambda>x. if x = c then new else [x]) s) = s"
  by (induction s) auto

lemma lower_opacity_rgb:
  assumes "CHR '')'' \<notin> set body" and "CHR ''r'' \<notin> set body"
  shows "lower_opacity (''rgb('' @ body @ '')'') opacity = ''rgba('' @ body @ '','' @ opacity @ '')''"
proof -
  have first: "replace (''rgb('' @ body @ '')'') ''rgb('' ''rgba('' = ''rgba('' @ body @ '')''"
    using assms(2) by (simp add: replace_def replace_ne_absent)
  have second: "replace (''rgba('' @ body @ '')'') '')'' ('','' @ opacity @ '')'')
                  = ''rgba('' @ body @ '','' @ opacity @ '')''"
    using assms(1) by (simp add: replace_def replace_ne_char concat_map_absent)
  show ?thesis
    unfolding lower_opacity_def first second ..
qed

lemma f64_upper: "f64_0_3 + f64_0_2828 = Finite (2624890222716303 / 4503599627370496)"
  by code_simp

lemma f64_lower: "f64_0_3 - f64_0_2828 = Finite (309078214823977 / 18014398509481984)"
  by code_simp

lemma f64_upper_minus_mean:
  "Finite (2624890222716303 / 4503599627370496) - f64_0_3
     = Finite (5095241338020617 / 18014398509481984)"
  by code_simp

lemma f64_mean_minus_lower:
  "f64_0_3 - Finite (309078214823977 / 18014398509481984)
     = Finite (2547620669010309 / 9007199254740992)"
  by code_simp

subsection \<open>The palette\<close>

text \<open>
  Claim C1. Given a colour table in which \<open>Set2\<close> has \<open>k\<close> colours under each key \<open>k\<close> from 3
  to 8, and an interpolation that returns as many colours as it is asked for,
  \<open>get_palette n\<close> returns a palette for every count \<open>n\<close>: of \<open>max 3 n\<close> colours when
  \<open>n \<le> 8\<close>, and of exactly \<open>n\<close> colours, interpolated from the 8-colour set, when \<open>n > 8\<close>.
\<close>

theorem get_palette_size:
  assumes tbl: "set2_sized sc"
    and ip: "\<forall>scl r. 8 < r \<longrightarrow> int (length (ip scl r)) = r"
  shows "\<exists>p. get_palette sc ip n = Inr p
           \<and> int (length p) = (if n \<le> 8 then max 3 n else n)
           \<and> (8 < n \<longrightarrow> (\<exists>s8. sc ''8'' = Some s8 \<and> length s8 = 8 \<and> p = ip s8 n))"
proof (cases "n \<le> 8")
  case True
  from max3_cases[OF True] tbl show ?thesis
    using True
    by (auto simp: get_palette_def set2_sized_def str_int_digits split: option.splits)
next
  case False
  with tbl ip show ?thesis
    by (auto simp: get_palette_def set2_sized_def split: option.splits)
qed

theorem get_palette_size_witness:
  "(\<exists>p. get_palette set2_scales sample_interp 2 = Inr p \<and> int (length p) = 3)
   \<and> (\<exists>p. get_palette set2_scales sample_interp 10 = Inr p \<and> int (length p) = 10
          \<and> p = sample_interp set2 10)"
proof -
  have ip: "\<forall>scl r. 8 < r \<longrightarrow> int (length (sample_interp scl r)) = r"
    by (simp add: sample_interp_length)
  have s8: "set2_scales ''8'' = Some set2"
    by (simp add: set2_scales_def)
  show ?thesis
    using get_palette_size [OF set2_scales_sized ip, of 2]
      get_palette_size [OF set2_scales_sized ip, of 10] s8
    by auto
qed

subsection \<open>The labels\<close>

text \<open>
  Claim C9, as amended. \<open>create_label\<close> returns the lists of \<open>y_col\<close> and \<open>x_col\<close>, and
  resolves each of the four overrides on its own: an override that is omitted or empty
  (the empty string, and for \<open>legend_name\<close> the empty list as well) gives the default, which
  is the comma-joined column list for \<open>y_title\<close> and \<open>x_title\<close>, the resolved
  \<open>y_title vs x_title\<close> for \<open>title\<close>, and the list of \<open>y_col\<close> for the legend names; an
  override that is not empty is used as it is in place of the default. With all four
  omitted, the record is the one of the defaults.
\<close>

theorem create_label_resolution:
  "create_label y_col x_col None None None None =
     \<lparr> y_title = join '','' (cast_list y_col),
       x_title = join '','' (cast_list x_col),
       title = join '','' (cast_list y_col) @ '' vs '' @ join '','' (cast_list x_col),
       y_col_list = cast_list y_col,
       x_col_list = cast_list x_col,
       legend_name_list = cast_list y_col \<rparr>
   \<and> y_col_list (create_label y_col x_col tt yt xt lg) = cast_list y_col
   \<and> x_col_list (create_label y_col x_col tt yt xt lg) = cast_list x_col
   \<and> (yt = None \<or> yt = Some [] \<longrightarrow>
        y_title (create_label y_col x_col tt yt xt lg) = join '','' (cast_list y_col))
   \<and> (yt = Some t \<and> t \<noteq> [] \<longrightarrow> y_title (create_label y_col x_col tt yt xt lg) = t)
   \<and> (xt = None \<or> xt = Some [] \<longrightarrow>
        x_title (create_label y_col x_col tt yt xt lg) = join '','' (cast_list x_col))
   \<and> (xt = Some t \<and> t \<noteq> [] \<longrightarrow> x_title (create_label y_col x_col tt yt xt lg) = t)
   \<and> (tt = None \<or> tt = Some [] \<longrightarrow>
        title (create_label y_col x_col tt yt xt lg)
          = y_title (create_label y_col x_col tt yt xt lg) @ '' vs ''
              @ x_title (create_label y_col x_col tt yt xt lg))
   \<and> (tt = Some t \<and> t \<noteq> [] \<longrightarrow> title (create_label y_col x_col tt yt xt lg) = t)
   \<and> (lg = None \<or> (lg = Some l \<and> \<not> truthy l) \<longrightarrow>
        legend_name_list (create_label y_col x_col tt yt xt lg) = cast_list y_col)
   \<and> (lg = Some l \<and> truthy l \<longrightarrow>
        legend_name_list (create_label y_col x_col tt yt xt lg) = cast_list l)"
  by (auto simp: create_label_def or_str_def or_col_def Let_def)

theorem create_label_resolution_witness:
  "create_label (StrList [''loss'', ''entropy'']) (Str ''total_t'') None None None None
     = \<lparr> y_title = ''loss,entropy'', x_title = ''total_t'', title = ''loss,entropy vs total_t'',
         y_col_list = [''loss'', ''entropy''], x_col_list = [''total_t''],
         legend_name_list = [''loss'', ''entropy''] \<rparr>
   \<and> y_title (create_label (StrList [''loss'', ''entropy'']) (Str ''total_t'')
        (Some []) (Some ''value'') (Some []) (Some (Str ''run 1''))) = ''value''
   \<and> x_title (create_label (StrList [''loss'', ''entropy'']) (Str ''total_t'')
        (Some []) (Some ''value'') (Some []) (Some (Str ''run 1''))) = ''total_t''
   \<and> title (create_label (StrList [''loss'', ''entropy'']) (Str ''total_t'')
        (Some []) (Some ''value'') (Some []) (Some (Str ''run 1''))) = ''value vs total_t''
   \<and> legend_name_list (create_label (StrList [''loss'', ''entropy'']) (Str ''total_t'')
        (Some []) (Some ''value'') (Some []) (Some (Str ''run 1''))) = [''run 1'']
   \<and> title (create_label (StrList [''loss'', ''entropy'']) (Str ''total_t'')
        (Some ''Losses'') None None (Some (StrList []))) = ''Losses''
   \<and> legend_name_list (create_label (StrList [''loss'', ''entropy'']) (Str ''total_t'')
        (Some ''Losses'') None None (Some (StrList []))) = [''loss'', ''entropy'']"
  using create_label_resolution [of "StrList [''loss'', ''entropy'']" "Str ''total_t''"
      "Some []" "Some ''value''" "Some []" "Some (Str ''run 1'')" "''value''" "Str ''run 1''"]
    create_label_resolution [of "StrList [''loss'', ''entropy'']" "Str ''total_t''"
      "Some ''Losses''" None None "Some (StrList [])" "''Losses''" "StrList []"]
  by simp

text \<open>An empty title is supplied and the default title is used all the same.\<close>

theorem create_label_empty_override:
  "title (create_label (Str ''a'') (Str ''b'') (Some '''') None None None) = ''a vs b''
   \<and> title (create_label (Str ''a'') (Str ''b'') (Some '''') None None None) \<noteq> ''''"
  by (simp add: create_label_def or_str_def or_col_def Let_def)

subsection \<open>The error band\<close>

text \<open>
  Claim C2, as amended. When the mean and the standard deviation of the series are
  computed (as two series of one length) and the time axis is a series, \<open>plot_mean_sr\<close>
  returns a figure with the main trace along the mean and one envelope trace that runs
  along \<open>upper\<close> and back along \<open>lower\<close>, where at every index \<open>upper = mean + std\<close> and
  \<open>lower = mean - std\<close> in the arithmetic of the series, which rounds; the envelope is
  filled, and for a main colour \<^verbatim>\<open>rgb(b)\<close> of the palette the fill colour is
  \<^verbatim>\<open>rgba(b,0.2)\<close>.
\<close>

theorem plot_mean_sr_envelope:
  fixes w :: "('a::{plus,minus}) world"
  assumes calc: "util_calc_srs_mean_std w sr_list = Inr (mean_sr, std_sr)"
    and len: "length mean_sr = length std_sr"
    and tm: "time_sr = Series x"
    and pal: "cl_scales w ''3'' = Some ((''rgb('' @ body @ '')'') # rest)"
    and body: "CHR '')'' \<notin> set body" "CHR ''r'' \<notin> set body"
  shows "\<exists>fig main_trace envelope_trace upper lower.
           plot_mean_sr w sr_list time_sr ttl y_t x_t = Inr fig
         \<and> fig_data fig = [main_trace, envelope_trace]
         \<and> sc_x main_trace = x \<and> sc_y main_trace = Series mean_sr
         \<and> sc_line_color main_trace = ''rgb('' @ body @ '')''
         \<and> sc_fill main_trace = None
         \<and> sc_x envelope_trace = x @ rev x
         \<and> sc_y envelope_trace = PyList (upper @ rev lower)
         \<and> length upper = length mean_sr \<and> length lower = length mean_sr
         \<and> (\<forall>i < length mean_sr.
               upper ! i = mean_sr ! i + std_sr ! i
             \<and> lower ! i = mean_sr ! i - std_sr ! i)
         \<and> sc_fill envelope_trace = Some ''tozerox''
         \<and> sc_fillcolor envelope_trace = Some (''rgba('' @ body @ '',0.2)'')"
proof -
  let ?color = "''rgb('' @ body @ '')''"
  let ?upper = "map2 (+) mean_sr std_sr"
  let ?lower = "map2 (-) mean_sr std_sr"
  let ?main = "\<lparr> sc_x = x, sc_y = Series mean_sr, sc_mode = Some ''lines'',
                 sc_showlegend = False, sc_line_color = ?color,
                 sc_line_width = Some 1, sc_fill = None, sc_fillcolor = None \<rparr>"
  let ?env = "\<lparr> sc_x = x @ rev x, sc_y = PyList (?upper @ rev ?lower),
                sc_mode = None, sc_showlegend = False,
                sc_line_color = ''rgba(0, 0, 0, 0)'', sc_line_width = None,
                sc_fill = Some ''tozerox'',
                sc_fillcolor = Some (lower_opacity ?color ''0.2'') \<rparr>"
  let ?fig = "\<lparr> fig_data = [?main, ?env],
                fig_layout = create_layout ttl y_t x_t None 500 600 None \<rparr>"
  have pointwise: "\<forall>i < length mean_sr.
        ?upper ! i = mean_sr ! i + std_sr ! i
      \<and> ?lower ! i = mean_sr ! i - std_sr ! i"
    using len by simp
  have lens: "length ?upper = length mean_sr" "length ?lower = length mean_sr"
    using len by simp_all
  have fill: "lower_opacity ?color ''0.2'' = ''rgba('' @ body @ '',0.2)''"
    using lower_opacity_rgb [OF body, of "''0.2''"] by simp
  have built: "plot_mean_sr w sr_list time_sr ttl y_t x_t = Inr ?fig"
    using calc tm first_color [OF pal]
    by (simp add: plot_mean_sr_def bind_exc_def Let_def del: append.simps)
  have main: "sc_x ?main = x" "sc_y ?main = Series mean_sr" "sc_line_color ?main = ?color"
    "sc_fill ?main = None"
    by simp_all
  have env: "sc_x ?env = x @ rev x" "sc_y ?env = PyList (?upper @ rev ?lower)"
    "sc_fill ?env = Some ''tozerox''" "sc_fillcolor ?env = Some (''rgba('' @ body @ '',0.2)'')"
    using fill by simp_all
  have data: "fig_data ?fig = [?main, ?env]"
    by simp
  from built data main env lens pointwise show ?thesis
    by blast
qed

theorem plot_mean_sr_envelope_witness:
  "\<exists>fig main_trace envelope_trace upper lower.
      plot_mean_sr quiet_world (SeriesList [[f64_0_1], [f64_0_5]])
        (Series [Finite 100]) ''trial'' ''strengths'' ''frames'' = Inr fig
    \<and> fig_data fig = [main_trace, envelope_trace]
    \<and> sc_y main_trace = Series [f64_0_3]
    \<and> sc_y envelope_trace = PyList (upper @ rev lower)
    \<and> upper = [Finite (2624890222716303 / 4503599627370496)]
    \<and> lower = [Finite (309078214823977 / 18014398509481984)]
    \<and> sc_fillcolor envelope_trace = Some ''rgba(102,194,165,0.2)''"
proof -
  have calc: "util_calc_srs_mean_std quiet_world (SeriesList [[f64_0_1], [f64_0_5]])
                = Inr ([f64_0_3], [f64_0_2828])"
    by (simp add: quiet_world_def demo_world_def demo_calc_def)
  have len: "length [f64_0_3] = length [f64_0_2828]"
    by simp
  have pal: "cl_scales quiet_world ''3''
               = Some ((''rgb('' @ ''102,194,165'' @ '')'') # [''rgb(252,141,98)'', ''rgb(141,160,203)''])"
    by (simp add: quiet_world_def demo_world_def set2_scales_def set2_def)
  have body: "CHR '')'' \<notin> set ''102,194,165''" "CHR ''r'' \<notin> set ''102,194,165''"
    by simp_all
  from plot_mean_sr_envelope [OF calc len refl pal body, of "[Finite 100]" "''trial''" "''strengths''" "''frames''"]
  obtain fig main_trace envelope_trace upper lower where
    h: "plot_mean_sr quiet_world (SeriesList [[f64_0_1], [f64_0_5]]) (Series [Finite 100])
          ''trial'' ''strengths'' ''frames'' = Inr fig"
      "fig_data fig = [main_trace, envelope_trace]"
      "sc_y main_trace = Series [f64_0_3]"
      "sc_y envelope_trace = PyList (upper @ rev lower)"
      "length upper = 1" "length lower = 1"
      "upper ! 0 = f64_0_3 + f64_0_2828" "lower ! 0 = f64_0_3 - f64_0_2828"
      "sc_fillcolor envelope_trace = Some ''rgba(102,194,165,0.2)''"
    by auto
  from h(5,7) have up: "upper = [Finite (2624890222716303 / 4503599627370496)]"
    by (cases upper) (simp_all add: f64_upper)
  from h(6,8) have lo: "lower = [Finite (309078214823977 / 18014398509481984)]"
    by (cases lower) (simp_all add: f64_lower)
  from h(1-4,9) up lo show ?thesis
    by blast
qed

text \<open>
  With the mean 0.3 and the standard deviation 0.282842712474619 of the values 0.1 and
  0.5, the envelope runs from 0.5828427124746189 back to 0.017157287525380982; the upper
  value minus the mean is 0.28284271247461895 and the mean minus the lower value is
  0.282842712474619.
\<close>

theorem plot_mean_sr_rounding:
  "plot_mean_sr quiet_world (SeriesList [[f64_0_1], [f64_0_5]]) (Series [Finite 100])
      ''trial'' ''strengths'' ''frames''
     = Inr \<lparr> fig_data =
               [\<lparr> sc_x = [Finite 100], sc_y = Series [f64_0_3], sc_mode = Some ''lines'',
                   sc_showlegend = False, sc_line_color = ''rgb(102,194,165)'',
                   sc_line_width = Some 1, sc_fill = None, sc_fillcolor = None \<rparr>,
                \<lparr> sc_x = [Finite 100, Finite 100],
                   sc_y = PyList [Finite (2624890222716303 / 4503599627370496),
                                  Finite (309078214823977 / 18014398509481984)],
                   sc_mode = None, sc_showlegend = False,
                   sc_line_color = ''rgba(0, 0, 0, 0)'', sc_line_width = None,
                   sc_fill = Some ''tozerox'',
                   sc_fillcolor = Some ''rgba(102,194,165,0.2)'' \<rparr>],
              fig_layout = create_layout ''trial'' ''strengths'' ''frames'' None 500 600 None \<rparr>
   \<and> Finite (2624890222716303 / 4503599627370496) - f64_0_3
       \<noteq> f64_0_3 - Finite (309078214823977 / 18014398509481984)"
proof -
  have color: "bind_exc (get_palette (cl_scales quiet_world) (cl_interp quiet_world) 1) getitem0
                 = Inr ''rgb(102,194,165)''"
    by (rule first_color) (simp add: quiet_world_def demo_world_def set2_scales_def set2_def)
  have calc: "util_calc_srs_mean_std quiet_world (SeriesList [[f64_0_1], [f64_0_5]])
                = Inr ([f64_0_3], [f64_0_2828])"
    by (simp add: quiet_world_def demo_world_def demo_calc_def)
  have fill: "lower_opacity ''rgb(102,194,165)'' ''0.2'' = ''rgba(102,194,165,0.2)''"
    by (simp add: lower_opacity_def replace_def)
  have fig: "plot_mean_sr quiet_world (SeriesList [[f64_0_1], [f64_0_5]]) (Series [Finite 100])
      ''trial'' ''strengths'' ''frames''
     = Inr \<lparr> fig_data =
               [\<lparr> sc_x = [Finite 100], sc_y = Series [f64_0_3], sc_mode = Some ''lines'',
                   sc_showlegend = False, sc_line_color = ''rgb(102,194,165)'',
                   sc_line_width = Some 1, sc_fill = None, sc_fillcolor = None \<rparr>,
                \<lparr> sc_x = [Finite 100, Finite 100],
                   sc_y = PyList [Finite (2624890222716303 / 4503599627370496),
                                  Finite (309078214823977 / 18014398509481984)],
                   sc_mode = None, sc_showlegend = False,
                   sc_line_color = ''rgba(0, 0, 0, 0)'', sc_line_width = None,
                   sc_fill = Some ''tozerox'',
                   sc_fillcolor = Some ''rgba(102,194,165,0.2)'' \<rparr>],
              fig_layout = create_layout ''trial'' ''strengths'' ''frames'' None 500 600 None \<rparr>"
    by (simp add: plot_mean_sr_def bind_exc_Inr Let_def calc color fill f64_upper f64_lower)
  have "Finite (2624890222716303 / 4503599627370496) - f64_0_3
       \<noteq> f64_0_3 - Finite (309078214823977 / 18014398509481984)"
    unfolding f64_upper_minus_mean f64_mean_minus_lower by simp
  with fig show ?thesis by simp
qed

subsection \<open>The export\<close>

text \<open>
  Claim C3. When \<open>PY_ENV\<close> is \<open>test\<close>, \<open>save_image\<close> returns without raising and without
  any effect: no call of \<open>pio.write_image\<close>, no warning, the state as it was.
\<close>

theorem save_image_test_noop:
  "os_environ w ''PY_ENV'' = Some ''test'' \<Longrightarrow> save_image w fig filepath st = (None, st)"
  by (simp add: save_image_def)

theorem save_image_test_noop_witness:
  "save_image (demo_world (Some ''test'') (\<lambda>tr. Some (OtherException ''orca''))) empty_figure
      ''data/graph.png'' init_state = (None, init_state)"
  by (rule save_image_test_noop) (simp add: demo_world_def)

text \<open>
  Claim C4, as amended. When the call of \<open>pio.write_image\<close> raises an exception that derives
  from \<open>Exception\<close>, \<open>save_image\<close> catches it and returns normally; an exception that does not
  (\<open>KeyboardInterrupt\<close>, \<open>SystemExit\<close>) leaves \<open>save_image\<close> as it is.
\<close>

theorem save_image_catches:
  assumes "os_environ w ''PY_ENV'' = Some v" and "v \<noteq> ''test''"
    and "pio_write_image w fig (util_smart_path w filepath) (trace st) = Some e"
  shows "fst (save_image w fig filepath st) = (if isinstance_Exception e then None else Some e)"
  using assms by (simp add: save_image_def Let_def)

theorem save_image_catches_witness:
  "fst (save_image (demo_world (Some ''dev'') (\<lambda>tr. Some (OtherException ''orca''))) empty_figure
      ''data/graph.png'' init_state) = None"
  using save_image_catches [of "demo_world (Some ''dev'') (\<lambda>tr. Some (OtherException ''orca''))"
      "''dev''" empty_figure "''data/graph.png''" init_state "OtherException ''orca''"]
  by (simp add: demo_world_def)

text \<open>An interrupt from the keyboard during the export leaves \<open>save_image\<close>.\<close>

theorem save_image_interrupt:
  "fst (save_image interrupted_world empty_figure ''data/graph.png'' init_state)
     = Some KeyboardInterrupt"
  by (simp add: save_image_def interrupted_world_def demo_world_def Let_def)

text \<open>
  Claim C10. \<open>PY_ENV\<close> is read before anything else and outside the \<open>try\<close>: when the
  environment has no \<open>PY_ENV\<close>, \<open>save_image\<close> raises \<open>KeyError\<close>, whatever the figure and
  the path, and nothing else happens.
\<close>

theorem save_image_no_env:
  "os_environ w ''PY_ENV'' = None \<Longrightarrow> save_image w fig filepath st = (Some (KeyError ''PY_ENV''), st)"
  by (simp add: save_image_def)

theorem save_image_no_env_witness:
  "save_image (demo_world None (\<lambda>tr. None)) empty_figure ''data/graph.png'' init_state
     = (Some (KeyError ''PY_ENV''), init_state)"
  by (rule save_image_no_env) (simp add: demo_world_def)

subsection \<open>The warning, once\<close>

text \<open>Every operation of the module keeps the log, the failed exports and the flag in step.\<close>

lemma warnings_append: "warnings (xs @ ys) = warnings xs @ warnings ys"
  by (induction xs rule: warnings.induct) simp_all

lemma failed_exports_append:
  "failed_exports (xs @ ys) = failed_exports xs @ failed_exports ys"
  by (induction xs rule: failed_exports.induct) simp_all

lemma inv_init: "warn_log_inv init_state"
  by (simp add: warn_log_inv_def init_state_def)

lemma inv_save_image: "warn_log_inv st \<Longrightarrow> warn_log_inv (snd (save_image w fig fp st))"
  by (auto simp: warn_log_inv_def save_image_def orca_warn_once_def warnings_append
        failed_exports_append Let_def
      split: option.splits if_splits)

lemma inv_plot: "warn_log_inv st \<Longrightarrow> warn_log_inv (plot w fig ao st)"
  by (auto simp: warn_log_inv_def plot_def warnings_append failed_exports_append split: if_splits)

lemma inv_plot_sr: "warn_log_inv st \<Longrightarrow> warn_log_inv (snd (plot_sr w sr tm ttl y_t x_t st))"
  by (auto simp: plot_sr_def Let_def inv_plot split: sum.splits)

lemma inv_session_loop:
  "warn_log_inv st \<Longrightarrow> warn_log_inv (snd (plot_session_loop w src ttl pre df_mode pairs st))"
proof (induction pairs arbitrary: st)
  case Nil
  then show ?case by simp
next
  case (Cons p pairs)
  obtain name time where p: "p = (name, time)" by (cases p)
  show ?case
  proof (cases "getitem src name")
    case (Inl e) with Cons.prems p show ?thesis by simp
  next
    case sr: (Inr sr)
    show ?thesis
    proof (cases "getitem src time")
      case (Inl e) with Cons.prems p sr show ?thesis by simp
    next
      case tm: (Inr tm)
      obtain r st1 where ps: "plot_sr w sr tm ttl name time st = (r, st1)"
        by (cases "plot_sr w sr tm ttl name time st")
      have i1: "warn_log_inv st1"
        using inv_plot_sr [OF Cons.prems, of w sr tm ttl name time] ps by simp
      show ?thesis
      proof (cases r)
        case (Inl e) with p sr tm ps i1 show ?thesis by simp
      next
        case fig: (Inr fig)
        let ?fp = "pre @ ''_session_graph_'' @ df_mode @ ''_'' @ name @ ''_vs_'' @ time @ ''.png''"
        obtain r2 st2 where si: "save_image w fig ?fp st1 = (r2, st2)"
          by (cases "save_image w fig ?fp st1")
        have i2: "warn_log_inv st2"
          using inv_save_image [OF i1, of w fig ?fp] si by simp
        show ?thesis
          using p sr tm ps fig si i2 Cons.IH [OF i2]
          by (cases r2) simp_all
      qed
    qed
  qed
qed

lemma inv_plot_session:
  "warn_log_inv st \<Longrightarrow> warn_log_inv (snd (plot_session w sp ms df df_mode st))"
proof -
  assume i: "warn_log_inv st"
  let ?ttl = "''session graph: '' @ spec_name sp @ '' t'' @ str_int (meta_trial (spec_meta sp))
                  @ '' s'' @ str_int (meta_session (spec_meta sp))"
  let ?five = "[(''mean_returns'', ''frames''), (''strengths'', ''frames''),
                 (''sample_efficiencies'', ''frames''), (''training_efficiencies'', ''opt_steps''),
                 (''stabilities'', ''frames'')]"
  obtain r st1 where l1: "plot_session_loop w (metrics_local ms) ?ttl (meta_prepath (spec_meta sp))
        df_mode ?five st = (r, st1)"
    by (cases "plot_session_loop w (metrics_local ms) ?ttl (meta_prepath (spec_meta sp)) df_mode ?five st")
  have i1: "warn_log_inv st1"
    using inv_session_loop [OF i, of w "metrics_local ms" ?ttl "meta_prepath (spec_meta sp)" df_mode ?five] l1
    by simp
  show ?thesis
    using l1 i1 inv_session_loop [OF i1]
    by (cases r) (simp_all add: plot_session_def Let_def del: plot_session_loop.simps)
qed

lemma inv_trial_loop:
  "warn_log_inv st \<Longrightarrow> warn_log_inv (snd (plot_trial_loop w local ttl pre pairs st))"
proof (induction pairs arbitrary: st)
  case Nil
  then show ?case by simp
next
  case (Cons p pairs)
  obtain name time where p: "p = (name, time)" by (cases p)
  show ?case
  proof (cases "getitem local name")
    case (Inl e) with Cons.prems p show ?thesis by simp
  next
    case sr: (Inr sr)
    show ?thesis
    proof (cases "getitem local time")
      case (Inl e) with Cons.prems p sr show ?thesis by simp
    next
      case tm: (Inr tm)
      obtain r st1 where ps: "(if name = ''consistencies''
                      then plot_sr w sr tm ttl name time st
                      else (plot_mean_sr w sr tm ttl name time, st)) = (r, st1)"
        by (cases "(if name = ''consistencies''
                      then plot_sr w sr tm ttl name time st
                      else (plot_mean_sr w sr tm ttl name time, st))")
      have i1: "warn_log_inv st1"
        using inv_plot_sr [OF Cons.prems, of w sr tm ttl name time] ps Cons.prems
        by (auto split: if_splits)
      show ?thesis
      proof (cases r)
        case (Inl e) with p sr tm ps i1 show ?thesis by simp
      next
        case fig: (Inr fig)
        let ?fp = "pre @ ''_trial_graph_'' @ name @ ''_vs_'' @ time @ ''.png''"
        obtain r2 st2 where si: "save_image w fig ?fp st1 = (r2, st2)"
          by (cases "save_image w fig ?fp st1")
        have i2: "warn_log_inv st2"
          using inv_save_image [OF i1, of w fig ?fp] si by simp
        show ?thesis
          using p sr tm ps fig si i2 Cons.IH [OF i2]
          by (cases r2) simp_all
      qed
    qed
  qed
qed

lemma inv_plot_trial: "warn_log_inv st \<Longrightarrow> warn_log_inv (snd (plot_trial w sp ms st))"
  by (simp add: plot_trial_def Let_def inv_trial_loop del: plot_trial_loop.simps)

lemma inv_do_call: "warn_log_inv st \<Longrightarrow> warn_log_inv (do_call c st)"
  by (cases c) (simp_all add: inv_save_image inv_plot_sr inv_plot_session inv_plot_trial)

lemma inv_run: "warn_log_inv st \<Longrightarrow> warn_log_inv (run calls st)"
  by (induction calls arbitrary: st) (simp_all add: inv_do_call)

text \<open>
  Claim C5. In one process, whatever calls of the module's operations came before, the log
  holds no warning as long as no export has failed and the one warning from then on, so at
  most one ever; an export that succeeds logs nothing; and a call of \<open>save_image\<close> whose
  export fails logs the warning when it is the first export to fail, and logs nothing
  when one has failed before.
\<close>

theorem orca_warns_at_most_once:
  fixes calls :: "('a::{plus,minus}) call list"
  shows "warnings (trace (run calls init_state))
           = (if failed_exports (trace (run calls init_state)) = [] then []
              else [''Failed to generate graph. Run retro-analysis to generate graphs later.''])
    \<and> length (warnings (trace (run calls init_state))) \<le> 1
    \<and> (os_environ w ''PY_ENV'' = Some v \<and> v \<noteq> ''test''
         \<and> pio_write_image w fig (util_smart_path w filepath) (trace (run calls init_state)) = None
       \<longrightarrow> trace (snd (save_image w fig filepath (run calls init_state)))
           = trace (run calls init_state) @ [WriteImage fig (util_smart_path w filepath) None])
    \<and> (os_environ w ''PY_ENV'' = Some v \<and> v \<noteq> ''test''
         \<and> pio_write_image w fig (util_smart_path w filepath) (trace (run calls init_state)) = Some e
         \<and> isinstance_Exception e
       \<longrightarrow> trace (snd (save_image w fig filepath (run calls init_state)))
           = trace (run calls init_state) @ WriteImage fig (util_smart_path w filepath) (Some e)
               # (if failed_exports (trace (run calls init_state)) = []
                  then [Warning ''Failed to generate graph. Run retro-analysis to generate graphs later.'']
                  else [])
         \<and> failed_exports (trace (snd (save_image w fig filepath (run calls init_state))))
           = failed_exports (trace (run calls init_state)) @ [e])"
proof -
  have i: "warn_log_inv (run calls (init_state :: 'a state))"
    by (rule inv_run [OF inv_init])
  then show ?thesis
    by (auto simp: warn_log_inv_def save_image_def orca_warn_once_def Let_def
          failed_exports_append
        split: if_splits)
qed

theorem orca_warns_at_most_once_witness:
  "length (warnings (trace (run
      [SaveImage (demo_world (Some ''dev'') (\<lambda>tr. Some (OtherException ''orca''))) empty_figure ''a.png'',
       SaveImage (demo_world (Some ''dev'') (\<lambda>tr. Some (OtherException ''orca''))) empty_figure ''b.png'']
      init_state))) \<le> 1
   \<and> trace (snd (save_image (demo_world (Some ''dev'') (\<lambda>tr. Some (OtherException ''orca'')))
        empty_figure ''a.png'' init_state))
     = [WriteImage empty_figure ''/lab/a.png'' (Some (OtherException ''orca'')),
        Warning ''Failed to generate graph. Run retro-analysis to generate graphs later.'']
   \<and> trace (snd (save_image (demo_world (Some ''dev'') (\<lambda>tr. Some (OtherException ''orca'')))
        empty_figure ''b.png''
        (run [SaveImage (demo_world (Some ''dev'') (\<lambda>tr. Some (OtherException ''orca'')))
                empty_figure ''a.png''] init_state)))
     = [WriteImage empty_figure ''/lab/a.png'' (Some (OtherException ''orca'')),
        Warning ''Failed to generate graph. Run retro-analysis to generate graphs later.'',
        WriteImage empty_figure ''/lab/b.png'' (Some (OtherException ''orca''))]
   \<and> trace (snd (save_image quiet_world empty_figure ''c.png'' init_state))
     = [WriteImage empty_figure ''/lab/c.png'' None]"
proof -
  let ?w = "demo_world (Some ''dev'') (\<lambda>tr. Some (OtherException ''orca''))"
  have env: "os_environ ?w ''PY_ENV'' = Some ''dev''" "''dev'' \<noteq> ''test''"
    by (simp_all add: demo_world_def)
  have fail: "\<And>fp tr. pio_write_image ?w empty_figure fp tr = Some (OtherException ''orca'')"
    by (simp add: demo_world_def)
  have sp: "\<And>fp. util_smart_path ?w fp = ''/lab/'' @ fp"
    by (simp add: demo_world_def)
  have qenv: "os_environ quiet_world ''PY_ENV'' = Some ''dev''"
    by (simp add: quiet_world_def demo_world_def)
  have qok: "\<And>fp tr. pio_write_image quiet_world empty_figure fp tr = None"
    by (simp add: quiet_world_def demo_world_def)
  have qsp: "\<And>fp. util_smart_path quiet_world fp = ''/lab/'' @ fp"
    by (simp add: quiet_world_def demo_world_def)
  have r1: "trace (run [SaveImage ?w empty_figure ''a.png''] init_state)
     = [WriteImage empty_figure ''/lab/a.png'' (Some (OtherException ''orca'')),
        Warning ''Failed to generate graph. Run retro-analysis to generate graphs later.'']"
    using env fail sp by (simp add: save_image_def orca_warn_once_def init_state_def Let_def)
  have r0: "trace (run [] (init_state :: float64 state)) = []"
    by (simp add: init_state_def)
  show ?thesis
    using orca_warns_at_most_once
        [of "[SaveImage ?w empty_figure ''a.png'', SaveImage ?w empty_figure ''b.png'']"
            ?w "''dev''" empty_figure "''a.png''" "OtherException ''orca''"]
      orca_warns_at_most_once
        [of "[]" ?w "''dev''" empty_figure "''a.png''" "OtherException ''orca''"]
      orca_warns_at_most_once
        [of "[SaveImage ?w empty_figure ''a.png'']" ?w "''dev''" empty_figure "''b.png''"
            "OtherException ''orca''"]
      orca_warns_at_most_once
        [of "[]" quiet_world "''dev''" empty_figure "''c.png''" "OtherException ''orca''"]
      env fail sp r1 r0 qenv qok qsp
    by simp
qed

subsection \<open>The charts of a trial and of a session\<close>

text \<open>
  Outside the test environment, with exports that fail with exceptions deriving from
  \<open>Exception\<close> at worst, \<open>save_image\<close> returns and adds one export; the two loops add one
  export for every pair, in order.
\<close>

lemma exports_append: "exports (xs @ ys) = exports xs @ exports ys"
  by (induction xs rule: exports.induct) simp_all

lemma exports_plot: "exports (trace (plot w fig ao st)) = exports (trace st)"
  by (simp add: plot_def exports_append)

lemma save_image_exports:
  assumes "os_environ w ''PY_ENV'' = Some v" and "v \<noteq> ''test''"
    and "\<forall>fig fp tr e. pio_write_image w fig fp tr = Some e \<longrightarrow> isinstance_Exception e"
  shows "\<exists>st'. save_image w fig filepath st = (None, st')
           \<and> exports (trace st') = exports (trace st) @ [(fig, util_smart_path w filepath)]"
proof (cases "pio_write_image w fig (util_smart_path w filepath) (trace st)")
  case None
  with assms(1,2) show ?thesis
    by (simp add: save_image_def Let_def exports_append)
next
  case (Some e)
  with assms(3) have "isinstance_Exception e" by blast
  with Some assms(1,2) show ?thesis
    by (simp add: save_image_def Let_def exports_append orca_warn_once_def)
qed

lemma plot_sr_single:
  assumes "cl_scales w ''3'' = Some (color # rest)"
  shows "\<exists>fig tr. plot_sr w sr (Series x) ttl y_t x_t st = (Inr fig, plot w fig None st)
           \<and> fig_data fig = [tr] \<and> sc_x tr = x \<and> sc_y tr = sr
           \<and> sc_fill tr = None \<and> sc_fillcolor tr = None
           \<and> lay_title (fig_layout fig) = ttl
           \<and> lay_yaxis_title (fig_layout fig) = y_t \<and> lay_xaxis_title (fig_layout fig) = x_t"
  using first_color [OF assms]
  by (simp add: plot_sr_def Let_def create_layout_def)

lemma plot_mean_sr_built:
  fixes w :: "('a::{plus,minus}) world"
  assumes "cl_scales w ''3'' = Some (color # rest)"
    and "util_calc_srs_mean_std w sr = Inr (m, s)"
  shows "\<exists>fig main_trace envelope_trace.
           plot_mean_sr w sr (Series x) ttl y_t x_t = Inr fig
           \<and> fig_data fig = [main_trace, envelope_trace]
           \<and> sc_x main_trace = x \<and> sc_y main_trace = Series m
           \<and> sc_mode main_trace = Some ''lines'' \<and> sc_fill main_trace = None
           \<and> sc_x envelope_trace = x @ rev x
           \<and> sc_y envelope_trace = PyList (map2 (+) m s @ rev (map2 (-) m s))
           \<and> sc_fill envelope_trace = Some ''tozerox''
           \<and> lay_title (fig_layout fig) = ttl"
  using first_color [OF assms(1)] assms(2)
  by (simp add: plot_mean_sr_def bind_exc_def Let_def create_layout_def)

lemma plot_session_loop_exports:
  assumes env: "os_environ w ''PY_ENV'' = Some v" "v \<noteq> ''test''"
    and writes: "\<forall>fig fp tr e. pio_write_image w fig fp tr = Some e \<longrightarrow> isinstance_Exception e"
    and pal: "cl_scales w ''3'' = Some (color # rest)"
  shows "\<forall>(name, time) \<in> set pairs. \<exists>sr x. src name = Some sr \<and> src time = Some (Series x) \<Longrightarrow>
    \<exists>st' new. plot_session_loop w src ttl pre df_mode pairs st = (None, st')
      \<and> exports (trace st') = exports (trace st) @ new
      \<and> list_all2 (single_series_export w src ttl (pre @ ''_session_graph_'' @ df_mode @ ''_''))
           pairs new"
proof (induction pairs arbitrary: st)
  case Nil
  then show ?case by simp
next
  case (Cons p pairs)
  obtain name time where p: "p = (name, time)" by (cases p)
  from Cons.prems p obtain sr x where
    sr: "src name = Some sr" and tm: "src time = Some (Series x)"
    by auto
  let ?fp = "pre @ ''_session_graph_'' @ df_mode @ ''_'' @ name @ ''_vs_'' @ time @ ''.png''"
  from plot_sr_single [OF pal, of sr x ttl name time st] obtain fig tr where
    ps: "plot_sr w sr (Series x) ttl name time st = (Inr fig, plot w fig None st)"
    and fig: "fig_data fig = [tr]" "sc_x tr = x" "sc_y tr = sr" "sc_fill tr = None"
      "sc_fillcolor tr = None" "lay_title (fig_layout fig) = ttl"
    by blast
  from save_image_exports [OF env writes, of fig ?fp "plot w fig None st"] obtain st2 where
    si: "save_image w fig ?fp (plot w fig None st) = (None, st2)"
    and e2: "exports (trace st2) = exports (trace st) @ [(fig, util_smart_path w ?fp)]"
    by (auto simp: exports_plot)
  from Cons.prems have "\<forall>(name, time) \<in> set pairs. \<exists>sr x. src name = Some sr \<and> src time = Some (Series x)"
    by simp
  from Cons.IH [OF this, of st2] obtain st' new where
    rest: "plot_session_loop w src ttl pre df_mode pairs st2 = (None, st')"
      "exports (trace st') = exports (trace st2) @ new"
      "list_all2 (single_series_export w src ttl (pre @ ''_session_graph_'' @ df_mode @ ''_''))
         pairs new"
    by blast
  have run: "plot_session_loop w src ttl pre df_mode (p # pairs) st = (None, st')"
    using p sr tm ps si rest(1) by (simp add: getitem_def)
  have ex: "exports (trace st') = exports (trace st) @ ((fig, util_smart_path w ?fp) # new)"
    using e2 rest(2) by simp
  have rel: "list_all2 (single_series_export w src ttl (pre @ ''_session_graph_'' @ df_mode @ ''_''))
          (p # pairs) ((fig, util_smart_path w ?fp) # new)"
    using p sr tm fig rest(3) by (simp add: single_series_export_def)
  from run ex rel show ?case by blast
qed

lemma plot_trial_loop_exports:
  fixes w :: "('a::{plus,minus}) world"
  assumes env: "os_environ w ''PY_ENV'' = Some v" "v \<noteq> ''test''"
    and writes: "\<forall>fig fp tr e. pio_write_image w fig fp tr = Some e \<longrightarrow> isinstance_Exception e"
    and pal: "cl_scales w ''3'' = Some (color # rest)"
  shows "\<forall>(name, time) \<in> set pairs. \<exists>sr x. src name = Some sr \<and> src time = Some (Series x)
            \<and> (name \<noteq> ''consistencies'' \<longrightarrow> (\<exists>m s. util_calc_srs_mean_std w sr = Inr (m, s))) \<Longrightarrow>
    \<exists>st' new. plot_trial_loop w src ttl pre pairs st = (None, st')
      \<and> exports (trace st') = exports (trace st) @ new
      \<and> list_all2 (\<lambda>pair ex. if fst pair = ''consistencies''
                       then single_series_export w src ttl (pre @ ''_trial_graph_'') pair ex
                       else error_band_export w src ttl (pre @ ''_trial_graph_'') pair ex)
           pairs new"
proof (induction pairs arbitrary: st)
  case Nil
  then show ?case by simp
next
  case (Cons p pairs)
  let ?R = "\<lambda>pair ex. if fst pair = ''consistencies''
                       then single_series_export w src ttl (pre @ ''_trial_graph_'') pair ex
                       else error_band_export w src ttl (pre @ ''_trial_graph_'') pair ex"
  obtain name time where p: "p = (name, time)" by (cases p)
  from Cons.prems p obtain sr x where
    sr: "src name = Some sr" and tm: "src time = Some (Series x)"
    and calc: "name \<noteq> ''consistencies'' \<longrightarrow> (\<exists>m s. util_calc_srs_mean_std w sr = Inr (m, s))"
    by auto
  let ?fp = "pre @ ''_trial_graph_'' @ name @ ''_vs_'' @ time @ ''.png''"
  have built: "\<exists>fig st1. (if name = ''consistencies''
                      then plot_sr w sr (Series x) ttl name time st
                      else (plot_mean_sr w sr (Series x) ttl name time, st)) = (Inr fig, st1)
                 \<and> exports (trace st1) = exports (trace st)
                 \<and> ?R (name, time) (fig, util_smart_path w ?fp)"
  proof (cases "name = ''consistencies''")
    case True
    from plot_sr_single [OF pal, of sr x ttl name time st] obtain fig tr where
      "plot_sr w sr (Series x) ttl name time st = (Inr fig, plot w fig None st)"
      "fig_data fig = [tr]" "sc_x tr = x" "sc_y tr = sr" "sc_fill tr = None"
      "sc_fillcolor tr = None" "lay_title (fig_layout fig) = ttl"
      by blast
    with True sr tm show ?thesis
      by (simp add: single_series_export_def exports_plot)
  next
    case False
    with calc obtain m s where ms: "util_calc_srs_mean_std w sr = Inr (m, s)" by blast
    from plot_mean_sr_built [OF pal ms, of x ttl name time] obtain fig mt et where
      "plot_mean_sr w sr (Series x) ttl name time = Inr fig"
      "fig_data fig = [mt, et]" "sc_x mt = x" "sc_y mt = Series m"
      "sc_mode mt = Some ''lines''" "sc_fill mt = None"
      "sc_x et = x @ rev x" "sc_y et = PyList (map2 (+) m s @ rev (map2 (-) m s))"
      "sc_fill et = Some ''tozerox''"
      "lay_title (fig_layout fig) = ttl"
      by blast
    with False sr tm ms show ?thesis
      by (simp add: error_band_export_def)
  qed
  then obtain fig st1 where
    ps: "(if name = ''consistencies''
                      then plot_sr w sr (Series x) ttl name time st
                      else (plot_mean_sr w sr (Series x) ttl name time, st)) = (Inr fig, st1)"
    and e1: "exports (trace st1) = exports (trace st)"
    and r1: "?R (name, time) (fig, util_smart_path w ?fp)"
    by blast
  from save_image_exports [OF env writes, of fig ?fp st1] obtain st2 where
    si: "save_image w fig ?fp st1 = (None, st2)"
    and e2: "exports (trace st2) = exports (trace st) @ [(fig, util_smart_path w ?fp)]"
    by (auto simp: e1)
  from Cons.prems have "\<forall>(name, time) \<in> set pairs. \<exists>sr x. src name = Some sr \<and> src time = Some (Series x)
            \<and> (name \<noteq> ''consistencies'' \<longrightarrow> (\<exists>m s. util_calc_srs_mean_std w sr = Inr (m, s)))"
    by simp
  from Cons.IH [OF this, of st2] obtain st' new where
    rest: "plot_trial_loop w src ttl pre pairs st2 = (None, st')"
      "exports (trace st') = exports (trace st2) @ new"
      "list_all2 ?R pairs new"
    by blast
  have run: "plot_trial_loop w src ttl pre (p # pairs) st = (None, st')"
    using p sr tm ps si rest(1) by (simp add: getitem_def)
  have ex: "exports (trace st') = exports (trace st) @ ((fig, util_smart_path w ?fp) # new)"
    using e2 rest(2) by simp
  have rel: "list_all2 ?R (p # pairs) ((fig, util_smart_path w ?fp) # new)"
    unfolding p using r1 rest(3) by (rule list.rel_intros)
  from run ex rel show ?case by blast
qed

text \<open>
  Claim C6. Outside the test environment, when the metrics of the trial are there (the
  five lists of series with their means and deviations, the series \<open>consistencies\<close>, the
  time axes \<open>frames\<close> and \<open>opt_steps\<close>), \<open>plot_trial\<close> returns and exports six charts, in
  this order: a chart with an error band (the line of the mean, and a filled envelope along
  mean + std and back along mean - std) for \<open>(mean_returns, frames)\<close>,
  \<open>(strengths, frames)\<close>, \<open>(sample_efficiencies, frames)\<close>,
  \<open>(training_efficiencies, opt_steps)\<close> and \<open>(stabilities, frames)\<close>, then a single-series
  chart, with no error band, for \<open>(consistencies, frames)\<close>; each one to the path
  \<^verbatim>\<open>{prepath}_trial_graph_{name}_vs_{time}.png\<close>.
\<close>

theorem plot_trial_charts:
  fixes w :: "('a::{plus,minus}) world"
  assumes env: "os_environ w ''PY_ENV'' = Some v" "v \<noteq> ''test''"
    and writes: "\<forall>fig fp tr e. pio_write_image w fig fp tr = Some e \<longrightarrow> isinstance_Exception e"
    and pal: "cl_scales w ''3'' = Some (color # rest)"
    and lists: "\<forall>(name, time) \<in> set [(''mean_returns'', ''frames''), (''strengths'', ''frames''),
                    (''sample_efficiencies'', ''frames''), (''training_efficiencies'', ''opt_steps''),
                    (''stabilities'', ''frames'')].
                 \<exists>sr x m s. metrics_local trial_metrics name = Some sr
                   \<and> metrics_local trial_metrics time = Some (Series x)
                   \<and> util_calc_srs_mean_std w sr = Inr (m, s)"
    and cons: "\<exists>sr. metrics_local trial_metrics ''consistencies'' = Some sr"
  shows "\<exists>st' band_exports consistencies_export.
           plot_trial w trial_spec trial_metrics st = (None, st')
         \<and> exports (trace st') = exports (trace st) @ band_exports @ [consistencies_export]
         \<and> list_all2
             (error_band_export w (metrics_local trial_metrics)
                (''trial graph: '' @ spec_name trial_spec @ '' t''
                   @ str_int (meta_trial (spec_meta trial_spec)) @ '' ''
                   @ str_int (meta_max_session (spec_meta trial_spec)) @ '' sessions'')
                (meta_prepath (spec_meta trial_spec) @ ''_trial_graph_''))
             [(''mean_returns'', ''frames''), (''strengths'', ''frames''),
              (''sample_efficiencies'', ''frames''), (''training_efficiencies'', ''opt_steps''),
              (''stabilities'', ''frames'')]
             band_exports
         \<and> single_series_export w (metrics_local trial_metrics)
              (''trial graph: '' @ spec_name trial_spec @ '' t''
                 @ str_int (meta_trial (spec_meta trial_spec)) @ '' ''
                 @ str_int (meta_max_session (spec_meta trial_spec)) @ '' sessions'')
              (meta_prepath (spec_meta trial_spec) @ ''_trial_graph_'')
              (''consistencies'', ''frames'') consistencies_export"
proof -
  let ?src = "metrics_local trial_metrics"
  let ?ttl = "''trial graph: '' @ spec_name trial_spec @ '' t''
                   @ str_int (meta_trial (spec_meta trial_spec)) @ '' ''
                   @ str_int (meta_max_session (spec_meta trial_spec)) @ '' sessions''"
  let ?pre = "meta_prepath (spec_meta trial_spec)"
  let ?five = "[(''mean_returns'', ''frames''), (''strengths'', ''frames''),
              (''sample_efficiencies'', ''frames''), (''training_efficiencies'', ''opt_steps''),
              (''stabilities'', ''frames'')]"
  let ?R = "\<lambda>pair ex. if fst pair = ''consistencies''
                       then single_series_export w ?src ?ttl (?pre @ ''_trial_graph_'') pair ex
                       else error_band_export w ?src ?ttl (?pre @ ''_trial_graph_'') pair ex"
  from lists obtain x where fr: "?src ''frames'' = Some (Series x)"
    by auto
  have all: "\<forall>(name, time) \<in> set (?five @ [(''consistencies'', ''frames'')]).
               \<exists>sr x. ?src name = Some sr \<and> ?src time = Some (Series x)
                 \<and> (name \<noteq> ''consistencies'' \<longrightarrow> (\<exists>m s. util_calc_srs_mean_std w sr = Inr (m, s)))"
    using lists cons fr by (simp del: ex_simps) blast
  from plot_trial_loop_exports [OF env writes pal all, of ?ttl ?pre st]
  obtain st' new where
    run: "plot_trial_loop w ?src ?ttl ?pre (?five @ [(''consistencies'', ''frames'')]) st = (None, st')"
    and ex: "exports (trace st') = exports (trace st) @ new"
    and rel: "list_all2 ?R (?five @ [(''consistencies'', ''frames'')]) new"
    by blast
  from rel obtain band last where
    new: "new = band @ last" and rb: "list_all2 ?R ?five band"
    and rl: "list_all2 ?R [(''consistencies'', ''frames'')] last"
    by (auto simp only: list_all2_append1)
  from rl obtain c where last: "last = [c]"
    and rc: "single_series_export w ?src ?ttl (?pre @ ''_trial_graph_'') (''consistencies'', ''frames'') c"
    by (auto simp: list_all2_Cons1)
  have "\<forall>p \<in> set ?five. fst p \<noteq> ''consistencies''"
    by simp
  then have "list_all2 (error_band_export w ?src ?ttl (?pre @ ''_trial_graph_'')) ?five band"
    using rb by (auto simp only: list_all2_conv_all_nth set_conv_nth split: if_splits) 
  moreover have "plot_trial w trial_spec trial_metrics st = (None, st')"
    using run by (simp add: plot_trial_def Let_def del: plot_trial_loop.simps)
  ultimately show ?thesis
    using ex new last rc by blast
qed

theorem plot_trial_charts_witness:
  "\<exists>st' band_exports consistencies_export.
       plot_trial (demo_world (Some ''dev'') (\<lambda>tr. if length tr < 2 then None else Some (OtherException ''orca'')))
         demo_spec demo_trial_metrics init_state = (None, st')
     \<and> exports (trace st') = exports (trace init_state) @ band_exports @ [consistencies_export]
     \<and> list_all2
         (error_band_export (demo_world (Some ''dev'') (\<lambda>tr. if length tr < 2 then None else Some (OtherException ''orca'')))
            (metrics_local demo_trial_metrics)
            ''trial graph: dqn_cartpole t0 3 sessions'' ''data/dqn_trial_graph_'')
         [(''mean_returns'', ''frames''), (''strengths'', ''frames''),
          (''sample_efficiencies'', ''frames''), (''training_efficiencies'', ''opt_steps''),
          (''stabilities'', ''frames'')]
         band_exports
     \<and> single_series_export (demo_world (Some ''dev'') (\<lambda>tr. if length tr < 2 then None else Some (OtherException ''orca'')))
          (metrics_local demo_trial_metrics)
          ''trial graph: dqn_cartpole t0 3 sessions'' ''data/dqn_trial_graph_''
          (''consistencies'', ''frames'') consistencies_export"
proof -
  let ?w = "demo_world (Some ''dev'') (\<lambda>tr. if length tr < 2 then None else Some (OtherException ''orca''))"
  have env: "os_environ ?w ''PY_ENV'' = Some ''dev''" "''dev'' \<noteq> ''test''"
    by (simp_all add: demo_world_def)
  have writes: "\<forall>fig fp tr e. pio_write_image ?w fig fp tr = Some e \<longrightarrow> isinstance_Exception e"
    by (auto simp: demo_world_def split: if_splits)
  have lists: "\<forall>(name, time) \<in> set [(''mean_returns'', ''frames''), (''strengths'', ''frames''),
                    (''sample_efficiencies'', ''frames''), (''training_efficiencies'', ''opt_steps''),
                    (''stabilities'', ''frames'')].
                 \<exists>sr x m s. metrics_local demo_trial_metrics name = Some sr
                   \<and> metrics_local demo_trial_metrics time = Some (Series x)
                   \<and> util_calc_srs_mean_std ?w sr = Inr (m, s)"
    by (simp add: demo_trial_metrics_def demo_world_def demo_calc_def)
  have cons: "\<exists>sr. metrics_local demo_trial_metrics ''consistencies'' = Some sr"
    by (simp add: demo_trial_metrics_def)
  have ttl: "''trial graph: '' @ spec_name demo_spec @ '' t''
                   @ str_int (meta_trial (spec_meta demo_spec)) @ '' ''
                   @ str_int (meta_max_session (spec_meta demo_spec)) @ '' sessions''
             = ''trial graph: dqn_cartpole t0 3 sessions''"
    by (simp add: demo_spec_def str_int_def digit_char_def)
  have pre: "meta_prepath (spec_meta demo_spec) @ ''_trial_graph_'' = ''data/dqn_trial_graph_''"
    by (simp add: demo_spec_def)
  show ?thesis
    using plot_trial_charts [OF env writes demo_first lists cons, of demo_spec init_state]
    unfolding ttl pre .
qed

text \<open>
  Claim C7. Outside the test environment, when the metrics of the session are there,
  \<open>plot_session\<close> returns and exports a single-series chart for each of
  \<open>(mean_returns, frames)\<close>, \<open>(strengths, frames)\<close>, \<open>(sample_efficiencies, frames)\<close>,
  \<open>(training_efficiencies, opt_steps)\<close> and \<open>(stabilities, frames)\<close>, in this order, to
  \<^verbatim>\<open>{prepath}_session_graph_{df_mode}_{name}_vs_{time}.png\<close>. With \<open>df_mode\<close> equal to
  \<^verbatim>\<open>eval\<close> that is all, and the data frame of the session plays no part; with any other
  \<open>df_mode\<close> the charts of \<open>loss\<close>, \<open>explore_var\<close> and \<open>entropy\<close> against \<open>total_t\<close>, read
  from the data frame, follow.
\<close>

theorem plot_session_charts:
  assumes env: "os_environ w ''PY_ENV'' = Some v" "v \<noteq> ''test''"
    and writes: "\<forall>fig fp tr e. pio_write_image w fig fp tr = Some e \<longrightarrow> isinstance_Exception e"
    and pal: "cl_scales w ''3'' = Some (color # rest)"
    and local: "\<forall>(name, time) \<in> set [(''mean_returns'', ''frames''), (''strengths'', ''frames''),
                    (''sample_efficiencies'', ''frames''), (''training_efficiencies'', ''opt_steps''),
                    (''stabilities'', ''frames'')].
                 \<exists>sr x. metrics_local session_metrics name = Some sr
                   \<and> metrics_local session_metrics time = Some (Series x)"
    and df: "df_mode \<noteq> ''eval'' \<longrightarrow>
               (\<forall>(name, time) \<in> set [(''loss'', ''total_t''), (''explore_var'', ''total_t''),
                    (''entropy'', ''total_t'')].
                 \<exists>sr x. session_df name = Some sr \<and> session_df time = Some (Series x))"
  shows "\<exists>st' local_exports df_exports.
           plot_session w session_spec session_metrics session_df df_mode st = (None, st')
         \<and> exports (trace st') = exports (trace st) @ local_exports @ df_exports
         \<and> list_all2
             (single_series_export w (metrics_local session_metrics)
                (''session graph: '' @ spec_name session_spec @ '' t''
                   @ str_int (meta_trial (spec_meta session_spec)) @ '' s''
                   @ str_int (meta_session (spec_meta session_spec)))
                (meta_prepath (spec_meta session_spec) @ ''_session_graph_'' @ df_mode @ ''_''))
             [(''mean_returns'', ''frames''), (''strengths'', ''frames''),
              (''sample_efficiencies'', ''frames''), (''training_efficiencies'', ''opt_steps''),
              (''stabilities'', ''frames'')]
             local_exports
         \<and> (df_mode = ''eval'' \<longrightarrow> df_exports = []
               \<and> (\<forall>other_df. plot_session w session_spec session_metrics other_df df_mode st
                                = (None, st')))
         \<and> (df_mode \<noteq> ''eval'' \<longrightarrow>
              list_all2
                (single_series_export w session_df
                   (''session graph: '' @ spec_name session_spec @ '' t''
                      @ str_int (meta_trial (spec_meta session_spec)) @ '' s''
                      @ str_int (meta_session (spec_meta session_spec)))
                   (meta_prepath (spec_meta session_spec) @ ''_session_graph_'' @ df_mode @ ''_''))
                [(''loss'', ''total_t''), (''explore_var'', ''total_t''), (''entropy'', ''total_t'')]
                df_exports)"
proof -
  let ?src = "metrics_local session_metrics"
  let ?ttl = "''session graph: '' @ spec_name session_spec @ '' t''
                   @ str_int (meta_trial (spec_meta session_spec)) @ '' s''
                   @ str_int (meta_session (spec_meta session_spec))"
  let ?pre = "meta_prepath (spec_meta session_spec)"
  let ?five = "[(''mean_returns'', ''frames''), (''strengths'', ''frames''),
              (''sample_efficiencies'', ''frames''), (''training_efficiencies'', ''opt_steps''),
              (''stabilities'', ''frames'')]"
  let ?three = "[(''loss'', ''total_t''), (''explore_var'', ''total_t''), (''entropy'', ''total_t'')]"
  from plot_session_loop_exports [OF env writes pal local, of ?ttl ?pre df_mode st]
  obtain st1 new1 where
    run1: "plot_session_loop w ?src ?ttl ?pre df_mode ?five st = (None, st1)"
    and ex1: "exports (trace st1) = exports (trace st) @ new1"
    and rel1: "list_all2 (single_series_export w ?src ?ttl (?pre @ ''_session_graph_'' @ df_mode @ ''_''))
                 ?five new1"
    by blast
  show ?thesis
  proof (cases "df_mode = ''eval''")
    case True
    have "\<And>other_df. plot_session w session_spec session_metrics other_df df_mode st = (None, st1)"
      using run1 True by (simp add: plot_session_def Let_def del: plot_session_loop.simps)
    with True ex1 rel1 show ?thesis
      by (intro exI [of _ st1] exI [of _ new1] exI [of _ "[]"]) simp
  next
    case False
    with df have "\<forall>(name, time) \<in> set ?three.
                 \<exists>sr x. session_df name = Some sr \<and> session_df time = Some (Series x)"
      by blast
    from plot_session_loop_exports [OF env writes pal this, of ?ttl ?pre df_mode st1]
    obtain st2 new2 where
      run2: "plot_session_loop w session_df ?ttl ?pre df_mode ?three st1 = (None, st2)"
      and ex2: "exports (trace st2) = exports (trace st1) @ new2"
      and rel2: "list_all2 (single_series_export w session_df ?ttl (?pre @ ''_session_graph_'' @ df_mode @ ''_''))
                 ?three new2"
      by blast
    have "plot_session w session_spec session_metrics session_df df_mode st = (None, st2)"
      using run1 run2 False by (simp add: plot_session_def Let_def del: plot_session_loop.simps)
    with False ex1 ex2 rel1 rel2 show ?thesis
      by (intro exI [of _ st2] exI [of _ new1] exI [of _ new2]) simp
  qed
qed

theorem plot_session_charts_witness:
  "\<exists>st' local_exports df_exports.
       plot_session (demo_world (Some ''dev'') (\<lambda>tr. None)) demo_spec demo_session_metrics
         demo_session_df ''train'' init_state = (None, st')
     \<and> exports (trace st') = exports (trace init_state) @ local_exports @ df_exports
     \<and> list_all2
         (single_series_export (demo_world (Some ''dev'') (\<lambda>tr. None))
            (metrics_local demo_session_metrics)
            ''session graph: dqn_cartpole t0 s1'' ''data/dqn_session_graph_train_'')
         [(''mean_returns'', ''frames''), (''strengths'', ''frames''),
          (''sample_efficiencies'', ''frames''), (''training_efficiencies'', ''opt_steps''),
          (''stabilities'', ''frames'')]
         local_exports
     \<and> list_all2
         (single_series_export (demo_world (Some ''dev'') (\<lambda>tr. None)) demo_session_df
            ''session graph: dqn_cartpole t0 s1'' ''data/dqn_session_graph_train_'')
         [(''loss'', ''total_t''), (''explore_var'', ''total_t''), (''entropy'', ''total_t'')]
         df_exports"
proof -
  let ?w = "demo_world (Some ''dev'') (\<lambda>tr. None)"
  have env: "os_environ ?w ''PY_ENV'' = Some ''dev''" "''dev'' \<noteq> ''test''"
    by (simp_all add: demo_world_def)
  have writes: "\<forall>fig fp tr e. pio_write_image ?w fig fp tr = Some e \<longrightarrow> isinstance_Exception e"
    by (simp add: demo_world_def)
  have local: "\<forall>(name, time) \<in> set [(''mean_returns'', ''frames''), (''strengths'', ''frames''),
                    (''sample_efficiencies'', ''frames''), (''training_efficiencies'', ''opt_steps''),
                    (''stabilities'', ''frames'')].
                 \<exists>sr x. metrics_local demo_session_metrics name = Some sr
                   \<and> metrics_local demo_session_metrics time = Some (Series x)"
    by (simp add: demo_session_metrics_def)
  have df: "''train'' \<noteq> ''eval'' \<longrightarrow>
               (\<forall>(name, time) \<in> set [(''loss'', ''total_t''), (''explore_var'', ''total_t''),
                    (''entropy'', ''total_t'')].
                 \<exists>sr x. demo_session_df name = Some sr \<and> demo_session_df time = Some (Series x))"
    by (simp add: demo_session_df_def)
  have ttl: "''session graph: '' @ spec_name demo_spec @ '' t''
                   @ str_int (meta_trial (spec_meta demo_spec)) @ '' s''
                   @ str_int (meta_session (spec_meta demo_spec))
             = ''session graph: dqn_cartpole t0 s1''"
    by (simp add: demo_spec_def str_int_def digit_char_def)
  have pre: "meta_prepath (spec_meta demo_spec) @ ''_session_graph_'' @ ''train'' @ ''_''
             = ''data/dqn_session_graph_train_''"
    by (simp add: demo_spec_def)
  have ne: "''train'' \<noteq> ''eval''"
    by simp
  from plot_session_charts [OF env writes demo_first local df, of demo_spec init_state]
  obtain st' local_exports df_exports where
    h: "plot_session ?w demo_spec demo_session_metrics demo_session_df ''train'' init_state = (None, st')"
      "exports (trace st') = exports (trace init_state) @ local_exports @ df_exports"
      "list_all2
         (single_series_export ?w (metrics_local demo_session_metrics)
            ''session graph: dqn_cartpole t0 s1'' ''data/dqn_session_graph_train_'')
         [(''mean_returns'', ''frames''), (''strengths'', ''frames''),
          (''sample_efficiencies'', ''frames''), (''training_efficiencies'', ''opt_steps''),
          (''stabilities'', ''frames'')]
         local_exports"
      "''train'' \<noteq> ''eval'' \<longrightarrow> list_all2
         (single_series_export ?w demo_session_df
            ''session graph: dqn_cartpole t0 s1'' ''data/dqn_session_graph_train_'')
         [(''loss'', ''total_t''), (''explore_var'', ''total_t''), (''entropy'', ''total_t'')]
         df_exports"
    unfolding ttl pre by blast
  from h(4) ne have "list_all2
         (single_series_export ?w demo_session_df
            ''session graph: dqn_cartpole t0 s1'' ''data/dqn_session_graph_train_'')
         [(''loss'', ''total_t''), (''explore_var'', ''total_t''), (''entropy'', ''total_t'')]
         df_exports"
    by (rule mp)
  with h(1-3) show ?thesis
    by blast
qed

end
